theory Spec2Isabelle
  imports Complex_Main
begin

section \<open>JavaScript values used by the background script\<close>

text \<open>
  A number produced by \<^verbatim>\<open>JSON.parse\<close> is a finite double (a rational) or an
  infinity (an out-of-range literal such as \<^verbatim>\<open>1e999\<close>); only its being zero is
  ever inspected by the script (truthiness).
\<close>

datatype jsnum = Finite rat | PosInfinity | NegInfinity

text \<open>
  \<open>JObj\<close> lists the own properties of a plain object, each key once.
  \<open>JUndefined\<close> is the value of a missing property or message field.
\<close>

datatype jsval =
    JUndefined
  | JNull
  | JBool bool
  | JNum jsnum
  | JStr string
  | JArr "jsval list"
  | JObj "(string \<times> jsval) list"

text \<open>Truthiness, as used by \<^verbatim>\<open>!!x\<close> and \<^verbatim>\<open>x || y\<close>.\<close>

fun truthy :: "jsval \<Rightarrow> bool" where
  "truthy JUndefined = False"
| "truthy JNull = False"
| "truthy (JBool b) = b"
| "truthy (JNum n) = (n \<noteq> Finite 0)"
| "truthy (JStr s) = (s \<noteq> [])"
| "truthy (JArr xs) = True"
| "truthy (JObj kvs) = True"

text \<open>\<^verbatim>\<open>a || b\<close>\<close>

definition js_or :: "jsval \<Rightarrow> jsval \<Rightarrow> jsval" where
  "js_or a b = (if truthy a then a else b)"

text \<open>
  \<^verbatim>\<open>v?.p\<close> for the property names the script reads (\<^verbatim>\<open>ok\<close>, \<^verbatim>\<open>text\<close>):
  \<^verbatim>\<open>undefined\<close> on \<^verbatim>\<open>null\<close> and \<^verbatim>\<open>undefined\<close>, the own property of an
  object, and \<^verbatim>\<open>undefined\<close> on every other value (no prototype of a boolean,
  number, string or array has a property of these names).
\<close>

fun opt_prop :: "jsval \<Rightarrow> string \<Rightarrow> jsval" where
  "opt_prop (JObj kvs) p = (case map_of kvs p of None \<Rightarrow> JUndefined | Some v \<Rightarrow> v)"
| "opt_prop v p = JUndefined"

subsection \<open>Numbers in template strings\<close>

definition digit :: "nat \<Rightarrow> char" where
  "digit n = ''0123456789'' ! (n mod 10)"

fun show_nat :: "nat \<Rightarrow> string" where
  "show_nat n = (if n < 10 then [digit n] else show_nat (n div 10) @ [digit (n mod 10)])"

declare show_nat.simps [simp del]

definition show_int :: "int \<Rightarrow> string" where
  "show_int i = (if i < 0 then CHR ''-'' # show_nat (nat (- i)) else show_nat (nat i))"

subsection \<open>Thrown errors and completions\<close>

text \<open>An \<^verbatim>\<open>Error\<close> (or \<^verbatim>\<open>DOMException\<close>) object: its name and message.\<close>

record js_error =
  err_name :: string
  err_message :: string

text \<open>\<^verbatim>\<open>String(err)\<close>, that is \<^verbatim>\<open>Error.prototype.toString\<close>.\<close>

definition error_to_string :: "js_error \<Rightarrow> string" where
  "error_to_string e =
     (if err_name e = [] then err_message e
      else if err_message e = [] then err_name e
      else err_name e @ '': '' @ err_message e)"

section \<open>The registry of active fetch controllers\<close>

text \<open>
  \<^verbatim>\<open>const key = (typeof tabId !== 'undefined') ? tabId : 'no-tab';\<close>
  A tab id is a number; \<^verbatim>\<open>sender?.tab?.id\<close> of a non-tab sender is \<^verbatim>\<open>undefined\<close>
  (\<open>None\<close>).
\<close>

datatype key = TabKey int | NoTab

definition key_of :: "int option \<Rightarrow> key" where
  "key_of tabId = (case tabId of Some t \<Rightarrow> TabKey t | None \<Rightarrow> NoTab)"

definition show_key :: "key \<Rightarrow> string" where
  "show_key k = (case k of TabKey t \<Rightarrow> show_int t | NoTab \<Rightarrow> ''no-tab'')"

text \<open>
  An \<^verbatim>\<open>AbortController\<close> is an object; the model names it by the number of its
  allocation. A \<^verbatim>\<open>Set\<close> of controllers is the list of its members in insertion
  order, each once.
\<close>

type_synonym controller = nat

definition set_add :: "controller \<Rightarrow> controller list \<Rightarrow> controller list" where
  "set_add c s = (if c \<in> set s then s else s @ [c])"

definition set_delete :: "controller \<Rightarrow> controller list \<Rightarrow> controller list" where
  "set_delete c s = removeAll c s"

text \<open>\<^verbatim>\<open>activeFetchControllers\<close>: a \<^verbatim>\<open>Map\<close> from key to \<^verbatim>\<open>Set\<close>.\<close>

type_synonym registry = "key \<Rightarrow> controller list option"

definition addControllerForTab :: "int option \<Rightarrow> controller \<Rightarrow> registry \<Rightarrow> registry" where
  "addControllerForTab tabId controller reg =
     (let key = key_of tabId in
      case reg key of
        None \<Rightarrow> reg(key \<mapsto> set_add controller [])
      | Some s \<Rightarrow> reg(key \<mapsto> set_add controller s))"

definition removeControllerForTab :: "int option \<Rightarrow> controller \<Rightarrow> registry \<Rightarrow> registry" where
  "removeControllerForTab tabId controller reg =
     (let key = key_of tabId in
      case reg key of
        None \<Rightarrow> reg
      | Some s \<Rightarrow>
          (let s' = set_delete controller s in
           if length s' = 0 then reg(key := None) else reg(key \<mapsto> s')))"

text \<open>The handles registered under a key: the members of its set, none when the key is absent.\<close>

definition handles_of :: "registry \<Rightarrow> key \<Rightarrow> controller list" where
  "handles_of reg k = (case reg k of None \<Rightarrow> [] | Some s \<Rightarrow> s)"

section \<open>The service worker's state and its observable effects\<close>

text \<open>The message objects sent to a tab and the objects passed to \<^verbatim>\<open>sendResponse\<close>.\<close>

record notification =
  n_action :: string
  n_kind :: string
  n_ok :: "bool option"
  n_error :: "string option"
  n_text :: "jsval option"
  n_data :: "jsval option"

record reply =
  r_ok :: bool
  r_error :: "string option"
  r_message :: "string option"
  r_text :: "jsval option"
  r_data :: "jsval option"

text \<open>
  What \<^verbatim>\<open>chrome.tabs.sendMessage\<close> does with a message: it is delivered, or its
  callback sees \<^verbatim>\<open>chrome.runtime.lastError\<close> (no receiver in the tab, tab gone), or the
  call itself throws.
\<close>

datatype send_outcome = Delivered | LastError string | SendThrows js_error

datatype event =
    Registered "int option" controller
  | Unregistered "int option" controller
  | Aborted controller
  | Logged string
  | Notified "int option" notification
  | Sent int notification send_outcome
  | Fetched string jsval controller
  | FetchSettled controller
  | Replied reply

text \<open>
  \<open>controllers\<close> is \<^verbatim>\<open>activeFetchControllers\<close>; \<open>aborted\<close> holds the controllers
  whose signal has fired; \<open>next_controller\<close> names the next \<^verbatim>\<open>new AbortController()\<close>;
  \<open>events\<close> is the log of the calls made so far, oldest first; \<open>deliver\<close> is the
  browser's answer to the \<open>n\<close>-th call when that call is a \<^verbatim>\<open>chrome.tabs.sendMessage\<close>.
\<close>

record world =
  controllers :: registry
  aborted :: "controller set"
  next_controller :: nat
  events :: "event list"
  deliver :: "nat \<Rightarrow> int \<Rightarrow> notification \<Rightarrow> send_outcome"

definition emit :: "event \<Rightarrow> world \<Rightarrow> world" where
  "emit e w = w\<lparr>events := events w @ [e]\<rparr>"

text \<open>A browser that delivers every message.\<close>

definition delivering :: "nat \<Rightarrow> int \<Rightarrow> notification \<Rightarrow> send_outcome" where
  "delivering n t m = Delivered"

definition initial_world :: "(nat \<Rightarrow> int \<Rightarrow> notification \<Rightarrow> send_outcome) \<Rightarrow> world" where
  "initial_world d =
     \<lparr>controllers = Map.empty, aborted = {}, next_controller = 0, events = [], deliver = d\<rparr>"

text \<open>\<^verbatim>\<open>try { controller.abort(); } catch (e) { /* ignore */ }\<close>\<close>

definition abort_controller :: "controller \<Rightarrow> world \<Rightarrow> world" where
  "abort_controller c w = emit (Aborted c) (w\<lparr>aborted := insert c (aborted w)\<rparr>)"

text \<open>
  \<^verbatim>\<open>cleanupTab\<close> has no \<^verbatim>\<open>return\<close> with a value: a call evaluates to
  \<^verbatim>\<open>undefined\<close> on both paths. The count goes to the console.
\<close>

definition cleanupTab :: "int option \<Rightarrow> world \<Rightarrow> jsval \<times> world" where
  "cleanupTab tabId w =
     (let key = key_of tabId in
      case controllers w key of
        None \<Rightarrow> (JUndefined, w)
      | Some s \<Rightarrow>
          (let count = length s;
               w1 = fold abort_controller s w;
               w2 = w1\<lparr>controllers := (controllers w1)(key := None)\<rparr>;
               w3 = emit (Logged (''cleanupTab: aborted '' @ show_nat count @
                                  '' request(s) for tab/key: '' @ show_key key)) w2
           in (JUndefined, w3)))"

text \<open>The three registry operations, as the rest of the script calls them.\<close>

datatype registry_op =
    Register "int option" controller
  | Unregister "int option" controller
  | CancelAll "int option"

fun apply_op :: "registry_op \<Rightarrow> world \<Rightarrow> world" where
  "apply_op (Register t c) w = w\<lparr>controllers := addControllerForTab t c (controllers w)\<rparr>"
| "apply_op (Unregister t c) w = w\<lparr>controllers := removeControllerForTab t c (controllers w)\<rparr>"
| "apply_op (CancelAll t) w = snd (cleanupTab t w)"

section \<open>Completions: returning or throwing\<close>

text \<open>
  A statement either completes normally or throws; in both cases the effects made so far
  stay. \<open>then_do\<close> is sequencing inside a block, \<open>try_catch\<close> is
  \<^verbatim>\<open>try { ... } catch (e) { ... }\<close>.
\<close>

datatype completion = Normal world | Throw js_error world

definition then_do :: "completion \<Rightarrow> (world \<Rightarrow> completion) \<Rightarrow> completion" where
  "then_do r f = (case r of Normal w \<Rightarrow> f w | Throw e w \<Rightarrow> Throw e w)"

definition try_catch :: "completion \<Rightarrow> (js_error \<Rightarrow> world \<Rightarrow> completion) \<Rightarrow> completion" where
  "try_catch r h = (case r of Normal w \<Rightarrow> Normal w | Throw e w \<Rightarrow> h e w)"

section \<open>The notifier\<close>

text \<open>
  \<^verbatim>\<open>chrome.tabs.sendMessage(tabId, message, callback)\<close>: the browser decides what
  becomes of the message. The callback only reads \<^verbatim>\<open>chrome.runtime.lastError\<close>.
\<close>

definition chrome_tabs_sendMessage :: "int \<Rightarrow> notification \<Rightarrow> world \<Rightarrow> completion" where
  "chrome_tabs_sendMessage t m w =
     (let out = deliver w (length (events w)) t m;
          w' = emit (Sent t m out) w
      in case out of
           SendThrows e \<Rightarrow> Throw e w'
         | Delivered \<Rightarrow> Normal w'
         | LastError s \<Rightarrow> Normal w')"

text \<open>
  \<^verbatim>\<open>notifyTab\<close>: returns at once for an undefined tab id, otherwise sends inside a
  \<^verbatim>\<open>try\<close> whose \<^verbatim>\<open>catch\<close> is empty. The \<open>Notified\<close> event records the call.
\<close>

definition notifyTab :: "int option \<Rightarrow> notification \<Rightarrow> world \<Rightarrow> completion" where
  "notifyTab tabId message w =
     (let w0 = emit (Notified tabId message) w in
      case tabId of
        None \<Rightarrow> Normal w0
      | Some t \<Rightarrow> try_catch (chrome_tabs_sendMessage t message w0) (\<lambda>e w'. Normal w'))"

definition sendResponse :: "reply \<Rightarrow> world \<Rightarrow> completion" where
  "sendResponse r w = Normal (emit (Replied r) w)"

section \<open>The message handlers\<close>

text \<open>
  The two async handlers are modelled step by step, one function per stretch of code
  between two \<^verbatim>\<open>await\<close>s. Their debugging \<^verbatim>\<open>console.log\<close> lines, each in a
  \<^verbatim>\<open>try\<close> of its own, change nothing and are left out.

  The fields of an incoming message; a missing field is \<open>JUndefined\<close>.
\<close>

record request =
  msg_prompt :: jsval
  msg_selectedText :: jsval
  msg_mode :: jsval
  msg_task :: jsval
  msg_targetLanguage :: jsval
  msg_pageContext :: jsval
  msg_length :: jsval

text \<open>
  A \<^verbatim>\<open>Response\<close>: its status, and what \<^verbatim>\<open>res.text()\<close> and \<^verbatim>\<open>res.json()\<close>
  settle with (\<open>Inl\<close>: the promise rejects). \<^verbatim>\<open>res.ok\<close> is a status of 200 to 299.
\<close>

record response =
  res_status :: nat
  body_text :: "js_error + string"
  body_json :: "js_error + jsval"

definition res_ok :: "response \<Rightarrow> bool" where
  "res_ok res = (200 \<le> res_status res \<and> res_status res \<le> 299)"

datatype fetch_result = Rejected js_error | Resolved response

text \<open>
  Where an invocation of an async handler stands: suspended at one of its three
  \<^verbatim>\<open>await\<close>s, finished, or rejected with an error that left its \<^verbatim>\<open>catch\<close>.
\<close>

datatype task_state =
    AwaitFetch
  | AwaitText response
  | AwaitJson response
  | Done
  | Crashed js_error

definition finish_task :: "completion \<Rightarrow> task_state \<times> world" where
  "finish_task r = (case r of Normal w \<Rightarrow> (Done, w) | Throw e w \<Rightarrow> (Crashed e, w))"

definition new_AbortController :: "world \<Rightarrow> controller \<times> world" where
  "new_AbortController w = (next_controller w, w\<lparr>next_controller := Suc (next_controller w)\<rparr>)"

text \<open>The calls of the two registry helpers from a handler, with the call recorded.\<close>

definition call_addControllerForTab :: "int option \<Rightarrow> controller \<Rightarrow> world \<Rightarrow> world" where
  "call_addControllerForTab tabId c w =
     emit (Registered tabId c) (w\<lparr>controllers := addControllerForTab tabId c (controllers w)\<rparr>)"

definition call_removeControllerForTab :: "int option \<Rightarrow> controller \<Rightarrow> world \<Rightarrow> world" where
  "call_removeControllerForTab tabId c w =
     emit (Unregistered tabId c) (w\<lparr>controllers := removeControllerForTab tabId c (controllers w)\<rparr>)"

text \<open>\<^verbatim>\<open>err && err.name === 'AbortError'\<close>\<close>

definition isAbort :: "js_error \<Rightarrow> bool" where
  "isAbort err = (err_name err = ''AbortError'')"

text \<open>\<^verbatim>\<open>(err && err.message) || String(err)\<close>\<close>

definition message_or_string :: "js_error \<Rightarrow> string" where
  "message_or_string err = (if err_message err \<noteq> [] then err_message err else error_to_string err)"

subsection \<open>\<^verbatim>\<open>summarize_page\<close>\<close>

definition summarize_catch :: "int option \<Rightarrow> controller \<Rightarrow> js_error \<Rightarrow> world \<Rightarrow> completion" where
  "summarize_catch tabId controller err w =
     (let w1 = call_removeControllerForTab tabId controller w;
          error = (if isAbort err then ''Request aborted'' else message_or_string err)
      in then_do
           (notifyTab tabId
              \<lparr>n_action = ''generation_finished'', n_kind = ''summary'', n_ok = Some False,
               n_error = Some error, n_text = None, n_data = None\<rparr> w1)
           (sendResponse
              \<lparr>r_ok = False, r_error = Some error, r_message = None, r_text = None,
               r_data = None\<rparr>))"

text \<open>From the start of the handler to \<^verbatim>\<open>await fetch(...)\<close>.\<close>

definition summarize_begin ::
  "int option \<Rightarrow> request \<Rightarrow> world \<Rightarrow> controller \<times> task_state \<times> world" where
  "summarize_begin tabId msg w =
     (let (controller, w1) = new_AbortController w;
          w2 = call_addControllerForTab tabId controller w1;
          payload = JObj [(''pageContext'', js_or (msg_pageContext msg) JNull),
                          (''length'', js_or (msg_length msg) (JStr ''medium''))]
      in case then_do
                (notifyTab tabId
                   \<lparr>n_action = ''generation_started'', n_kind = ''summary'', n_ok = None,
                    n_error = None, n_text = None, n_data = None\<rparr> w2)
                (\<lambda>w. Normal (emit (Fetched ''http://localhost:3000/api/summarize'' payload
                                     controller) w)) of
           Normal w3 \<Rightarrow> (controller, AwaitFetch, w3)
         | Throw e w3 \<Rightarrow> (controller, finish_task (summarize_catch tabId controller e w3)))"

text \<open>The fetch promise settles: up to \<^verbatim>\<open>await res.text()\<close> or \<^verbatim>\<open>await res.json()\<close>.\<close>

definition summarize_fetch_settled ::
  "int option \<Rightarrow> controller \<Rightarrow> fetch_result \<Rightarrow> world \<Rightarrow> task_state \<times> world" where
  "summarize_fetch_settled tabId controller fr w =
     (let w0 = emit (FetchSettled controller) w in
      case fr of
        Rejected err \<Rightarrow> finish_task (summarize_catch tabId controller err w0)
      | Resolved res \<Rightarrow>
          (let w1 = call_removeControllerForTab tabId controller w0 in
           if \<not> res_ok res then (AwaitText res, w1) else (AwaitJson res, w1)))"

definition summarize_text_settled ::
  "int option \<Rightarrow> controller \<Rightarrow> response \<Rightarrow> world \<Rightarrow> task_state \<times> world" where
  "summarize_text_settled tabId controller res w =
     (let bodyText = (case body_text res of Inl e \<Rightarrow> ''<unable to read>'' | Inr s \<Rightarrow> s);
          error = ''Server error '' @ show_nat (res_status res) @ '': '' @ bodyText
      in finish_task
           (try_catch
              (then_do
                 (notifyTab tabId
                    \<lparr>n_action = ''generation_finished'', n_kind = ''summary'', n_ok = Some False,
                     n_error = Some error, n_text = None, n_data = None\<rparr> w)
                 (sendResponse
                    \<lparr>r_ok = False, r_error = Some error, r_message = None, r_text = None,
                     r_data = None\<rparr>))
              (summarize_catch tabId controller)))"

definition summarize_json_settled ::
  "int option \<Rightarrow> controller \<Rightarrow> response \<Rightarrow> world \<Rightarrow> task_state \<times> world" where
  "summarize_json_settled tabId controller res w =
     finish_task
       (try_catch
          (case body_json res of
             Inl err \<Rightarrow> Throw err w
           | Inr data \<Rightarrow>
               then_do
                 (notifyTab tabId
                    \<lparr>n_action = ''generation_finished'', n_kind = ''summary'', n_ok = Some True,
                     n_error = None, n_text = Some (opt_prop data ''text''),
                     n_data = Some data\<rparr> w)
                 (sendResponse
                    \<lparr>r_ok = truthy (opt_prop data ''ok''), r_error = None, r_message = None,
                     r_text = Some (opt_prop data ''text''), r_data = Some data\<rparr>))
          (summarize_catch tabId controller))"

subsection \<open>\<^verbatim>\<open>query_gemini\<close>\<close>

definition query_catch :: "int option \<Rightarrow> controller \<Rightarrow> js_error \<Rightarrow> world \<Rightarrow> completion" where
  "query_catch tabId controller err w =
     (let w1 = call_removeControllerForTab tabId controller w;
          error = (if isAbort err then ''Request aborted (tab closed or navigation occurred).''
                   else message_or_string err)
      in then_do
           (notifyTab tabId
              \<lparr>n_action = ''generation_finished'', n_kind = ''query'', n_ok = Some False,
               n_error = Some error, n_text = None, n_data = None\<rparr> w1)
           (sendResponse
              \<lparr>r_ok = False, r_error = Some error, r_message = None, r_text = None,
               r_data = None\<rparr>))"

definition query_begin ::
  "int option \<Rightarrow> request \<Rightarrow> world \<Rightarrow> controller \<times> task_state \<times> world" where
  "query_begin tabId msg w =
     (let (controller, w1) = new_AbortController w;
          w2 = call_addControllerForTab tabId controller w1;
          payload = JObj [(''prompt'', msg_prompt msg),
                          (''selectedText'', msg_selectedText msg),
                          (''mode'', js_or (msg_mode msg) (JStr ''general'')),
                          (''task'', js_or (msg_task msg) JNull),
                          (''targetLanguage'', js_or (msg_targetLanguage msg) JNull),
                          (''pageContext'', js_or (msg_pageContext msg) JNull)]
      in case then_do
                (notifyTab tabId
                   \<lparr>n_action = ''generation_started'', n_kind = ''query'', n_ok = None,
                    n_error = None, n_text = None, n_data = None\<rparr> w2)
                (\<lambda>w. Normal (emit (Fetched ''http://localhost:3000/api/generate'' payload
                                     controller) w)) of
           Normal w3 \<Rightarrow> (controller, AwaitFetch, w3)
         | Throw e w3 \<Rightarrow> (controller, finish_task (query_catch tabId controller e w3)))"

definition query_fetch_settled ::
  "int option \<Rightarrow> controller \<Rightarrow> fetch_result \<Rightarrow> world \<Rightarrow> task_state \<times> world" where
  "query_fetch_settled tabId controller fr w =
     (let w0 = emit (FetchSettled controller) w in
      case fr of
        Rejected err \<Rightarrow> finish_task (query_catch tabId controller err w0)
      | Resolved res \<Rightarrow>
          (let w1 = call_removeControllerForTab tabId controller w0 in
           if \<not> res_ok res then (AwaitText res, w1) else (AwaitJson res, w1)))"

definition query_text_settled ::
  "int option \<Rightarrow> controller \<Rightarrow> response \<Rightarrow> world \<Rightarrow> task_state \<times> world" where
  "query_text_settled tabId controller res w =
     (let text = (case body_text res of
                    Inl e \<Rightarrow> ''<failed to read body: '' @ err_message e @ ''>''
                  | Inr s \<Rightarrow> s);
          error = ''Server error '' @ show_nat (res_status res) @ '': '' @ text
      in finish_task
           (try_catch
              (then_do
                 (notifyTab tabId
                    \<lparr>n_action = ''generation_finished'', n_kind = ''query'', n_ok = Some False,
                     n_error = Some error, n_text = None, n_data = None\<rparr> w)
                 (sendResponse
                    \<lparr>r_ok = False, r_error = Some error, r_message = None, r_text = None,
                     r_data = None\<rparr>))
              (query_catch tabId controller)))"

definition query_json_settled ::
  "int option \<Rightarrow> controller \<Rightarrow> response \<Rightarrow> world \<Rightarrow> task_state \<times> world" where
  "query_json_settled tabId controller res w =
     finish_task
       (try_catch
          (case body_json res of
             Inl err \<Rightarrow> Throw err w
           | Inr data \<Rightarrow>
               then_do
                 (notifyTab tabId
                    \<lparr>n_action = ''generation_finished'', n_kind = ''query'', n_ok = Some True,
                     n_error = None, n_text = None, n_data = Some data\<rparr> w)
                 (sendResponse
                    \<lparr>r_ok = True, r_error = None, r_message = None, r_text = None,
                     r_data = Some data\<rparr>))
          (query_catch tabId controller))"

subsection \<open>\<^verbatim>\<open>abort_requests\<close>\<close>

definition on_abort_requests :: "int option \<Rightarrow> world \<Rightarrow> completion" where
  "on_abort_requests tabId w =
     (case tabId of
        Some t \<Rightarrow>
          sendResponse
            \<lparr>r_ok = True, r_error = None,
             r_message = Some (''aborted for tab '' @ show_int t), r_text = None,
             r_data = None\<rparr>
            (snd (cleanupTab (Some t) w))
      | None \<Rightarrow>
          sendResponse
            \<lparr>r_ok = True, r_error = None,
             r_message = Some ''aborted non-tab controllers'', r_text = None, r_data = None\<rparr>
            (snd (cleanupTab None w)))"

section \<open>One invocation among the other flows of the service worker\<close>

text \<open>
  While a handler is suspended at an \<^verbatim>\<open>await\<close>, other listeners run: a tab closes,
  unloads or asks to abort (all three call \<^verbatim>\<open>cleanupTab\<close>), another request creates
  and registers its own controller, or removes a controller.
\<close>

datatype env_op =
    EnvCleanup "int option"
  | EnvRegister "int option"
  | EnvUnregister "int option" controller

fun env_step :: "env_op \<Rightarrow> world \<Rightarrow> world" where
  "env_step (EnvCleanup t) w = snd (cleanupTab t w)"
| "env_step (EnvRegister t) w =
     (let (c, w1) = new_AbortController w
      in w1\<lparr>controllers := addControllerForTab t c (controllers w1)\<rparr>)"
| "env_step (EnvUnregister t c) w =
     w\<lparr>controllers := removeControllerForTab t c (controllers w)\<rparr>"

text \<open>
  A whole invocation: the handler up to its fetch, the other flows \<open>env1\<close>, the fetch
  settling with \<open>fr\<close>, the other flows \<open>env2\<close>, the body read settling as \<open>fr\<close> says.
\<close>

definition run_summarize ::
  "int option \<Rightarrow> request \<Rightarrow> env_op list \<Rightarrow> fetch_result \<Rightarrow> env_op list \<Rightarrow> world \<Rightarrow>
   controller \<times> task_state \<times> world" where
  "run_summarize tabId msg env1 fr env2 w =
     (let (controller, st1, w1) = summarize_begin tabId msg w;
          w2 = fold env_step env1 w1;
          (st2, w3) = (case st1 of
                         AwaitFetch \<Rightarrow> summarize_fetch_settled tabId controller fr w2
                       | _ \<Rightarrow> (st1, w2));
          w4 = fold env_step env2 w3;
          (st3, w5) = (case st2 of
                         AwaitText res \<Rightarrow> summarize_text_settled tabId controller res w4
                       | AwaitJson res \<Rightarrow> summarize_json_settled tabId controller res w4
                       | _ \<Rightarrow> (st2, w4))
      in (controller, st3, w5))"

definition run_query ::
  "int option \<Rightarrow> request \<Rightarrow> env_op list \<Rightarrow> fetch_result \<Rightarrow> env_op list \<Rightarrow> world \<Rightarrow>
   controller \<times> task_state \<times> world" where
  "run_query tabId msg env1 fr env2 w =
     (let (controller, st1, w1) = query_begin tabId msg w;
          w2 = fold env_step env1 w1;
          (st2, w3) = (case st1 of
                         AwaitFetch \<Rightarrow> query_fetch_settled tabId controller fr w2
                       | _ \<Rightarrow> (st1, w2));
          w4 = fold env_step env2 w3;
          (st3, w5) = (case st2 of
                         AwaitText res \<Rightarrow> query_text_settled tabId controller res w4
                       | AwaitJson res \<Rightarrow> query_json_settled tabId controller res w4
                       | _ \<Rightarrow> (st2, w4))
      in (controller, st3, w5))"


subsection \<open>Reading the log\<close>

fun reply_of :: "event \<Rightarrow> reply option" where
  "reply_of (Replied r) = Some r"
| "reply_of e = None"

fun notification_of :: "event \<Rightarrow> (int option \<times> notification) option" where
  "notification_of (Notified t m) = Some (t, m)"
| "notification_of e = None"

fun sent_of :: "event \<Rightarrow> (int \<times> notification) option" where
  "sent_of (Sent t m out) = Some (t, m)"
| "sent_of e = None"

text \<open>The replies, the \<^verbatim>\<open>notifyTab\<close> calls and the messages handed to the browser, in order.\<close>

definition replies :: "world \<Rightarrow> reply list" where
  "replies w = List.map_filter reply_of (events w)"

definition notifications :: "world \<Rightarrow> (int option \<times> notification) list" where
  "notifications w = List.map_filter notification_of (events w)"

definition sent_messages :: "world \<Rightarrow> (int \<times> notification) list" where
  "sent_messages w = List.map_filter sent_of (events w)"

text \<open>How many events of the log satisfy \<open>P\<close>.\<close>

definition count_events :: "(event \<Rightarrow> bool) \<Rightarrow> world \<Rightarrow> nat" where
  "count_events P w = length (filter P (events w))"

section \<open>Notions used in the statements\<close>

definition world_of :: "completion \<Rightarrow> world" where
  "world_of r = (case r of Normal w \<Rightarrow> w | Throw e w \<Rightarrow> w)"

fun returned :: "completion \<Rightarrow> bool" where
  "returned (Normal w) = True"
| "returned (Throw e w) = False"

text \<open>The effect of a \<^verbatim>\<open>notifyTab\<close> call in closed form (lemma \<open>notifyTab_returns\<close>).\<close>

definition after_notify :: "int option \<Rightarrow> notification \<Rightarrow> world \<Rightarrow> world" where
  "after_notify tabId m w =
     (case tabId of
        None \<Rightarrow> emit (Notified tabId m) w
      | Some t \<Rightarrow>
          emit (Sent t m (deliver w (Suc (length (events w))) t m)) (emit (Notified tabId m) w))"

text \<open>The events logged between two states, and the events the other flows log.\<close>

definition events_since :: "world \<Rightarrow> world \<Rightarrow> event list" where
  "events_since w w' = drop (length (events w)) (events w')"

definition env_trace :: "env_op list \<Rightarrow> world \<Rightarrow> event list" where
  "env_trace env w = events_since w (fold env_step env w)"

fun env_event :: "event \<Rightarrow> bool" where
  "env_event (Aborted c) = True"
| "env_event (Logged s) = True"
| "env_event e = False"

text \<open>
  \<open>precedes P Q xs\<close>: no \<open>Q\<close> occurs in \<open>xs\<close> before the first \<open>P\<close>.
  \<open>none_from Q P xs\<close>: no \<open>P\<close> occurs in \<open>xs\<close> from the first \<open>Q\<close> on.
\<close>

fun precedes :: "('a \<Rightarrow> bool) \<Rightarrow> ('a \<Rightarrow> bool) \<Rightarrow> 'a list \<Rightarrow> bool" where
  "precedes P Q [] = True"
| "precedes P Q (x # xs) = (if P x then True else if Q x then False else precedes P Q xs)"

definition none_from :: "('a \<Rightarrow> bool) \<Rightarrow> ('a \<Rightarrow> bool) \<Rightarrow> 'a list \<Rightarrow> bool" where
  "none_from Q P xs = (filter P (dropWhile (\<lambda>x. \<not> Q x) xs) = [])"

fun is_started :: "event \<Rightarrow> bool" where
  "is_started (Notified t m) = (n_action m = ''generation_started'')"
| "is_started e = False"

fun is_finished :: "event \<Rightarrow> bool" where
  "is_finished (Notified t m) = (n_action m = ''generation_finished'')"
| "is_finished e = False"

fun is_fetch :: "event \<Rightarrow> bool" where
  "is_fetch (Fetched u p c) = True"
| "is_fetch e = False"

fun is_settled :: "event \<Rightarrow> bool" where
  "is_settled (FetchSettled c) = True"
| "is_settled e = False"

fun is_unregister :: "event \<Rightarrow> bool" where
  "is_unregister (Unregistered t c) = True"
| "is_unregister e = False"

text \<open>The call \<^verbatim>\<open>removeControllerForTab(tabId, controller)\<close> with these very arguments.\<close>

fun is_unregister_of :: "int option \<Rightarrow> controller \<Rightarrow> event \<Rightarrow> bool" where
  "is_unregister_of t c (Unregistered t' c') = (t' = t \<and> c' = c)"
| "is_unregister_of t c e = False"

fun is_reply :: "event \<Rightarrow> bool" where
  "is_reply (Replied r) = True"
| "is_reply e = False"

text \<open>
  What the log of one invocation must look like: one start notification, one fetch, one
  settlement, one finish notification and one reply; the start notification before the
  fetch, the fetch before its settlement, the settlement before the finish notification
  and before the reply; every \<^verbatim>\<open>removeControllerForTab\<close> call before the finish
  notification; and one such call, or two when a 2xx body fails to parse.
\<close>

definition invocation_order :: "fetch_result \<Rightarrow> event list \<Rightarrow> bool" where
  "invocation_order fr tr =
     (length (filter is_started tr) = 1 \<and>
      length (filter is_fetch tr) = 1 \<and>
      length (filter is_settled tr) = 1 \<and>
      length (filter is_finished tr) = 1 \<and>
      length (filter is_reply tr) = 1 \<and>
      precedes is_started is_fetch tr \<and>
      precedes is_fetch is_settled tr \<and>
      precedes is_settled is_finished tr \<and>
      precedes is_settled is_reply tr \<and>
      precedes is_unregister is_finished tr \<and>
      none_from is_finished is_unregister tr \<and>
      length (filter is_unregister tr) =
        (case fr of Rejected err \<Rightarrow> 1
         | Resolved res \<Rightarrow> if res_ok res \<and> isl (body_json res) then 2 else 1))"

section \<open>Registry lemmas\<close>

lemma set_add_not_Nil: "set_add c s \<noteq> []"
  by (auto simp: set_add_def)

lemma addControllerForTab_no_empty:
  "reg k \<noteq> Some [] \<Longrightarrow> addControllerForTab t c reg k \<noteq> Some []"
  by (simp add: addControllerForTab_def Let_def set_add_not_Nil split: option.splits)

lemma removeControllerForTab_no_empty:
  "reg k \<noteq> Some [] \<Longrightarrow> removeControllerForTab t c reg k \<noteq> Some []"
  by (simp add: removeControllerForTab_def Let_def split: option.splits)

lemma controllers_emit [simp]: "controllers (emit e w) = controllers w"
  by (simp add: emit_def)

lemma controllers_fold_abort [simp]: "controllers (fold abort_controller s w) = controllers w"
  by (induction s arbitrary: w) (simp_all add: abort_controller_def)

lemma cleanupTab_no_empty:
  "controllers w k \<noteq> Some [] \<Longrightarrow> controllers (snd (cleanupTab t w)) k \<noteq> Some []"
  by (simp add: cleanupTab_def Let_def split: option.splits)

lemma apply_op_no_empty:
  "controllers w k \<noteq> Some [] \<Longrightarrow> controllers (apply_op op w) k \<noteq> Some []"
  by (cases op)
     (simp_all add: addControllerForTab_no_empty removeControllerForTab_no_empty
        cleanupTab_no_empty)

lemma fold_apply_op_no_empty:
  "controllers w k \<noteq> Some [] \<Longrightarrow> controllers (fold apply_op ops w) k \<noteq> Some []"
  by (induction ops arbitrary: w) (simp_all add: apply_op_no_empty)

lemma reachable_no_empty: "controllers (fold apply_op ops (initial_world d)) k \<noteq> Some []"
  by (rule fold_apply_op_no_empty) (simp add: initial_world_def)

section \<open>Completions and the notifier\<close>

lemma then_do_Normal [simp]: "then_do (Normal w) f = f w"
  by (simp add: then_do_def)

lemma then_do_Throw [simp]: "then_do (Throw e w) f = Throw e w"
  by (simp add: then_do_def)

lemma try_catch_Normal [simp]: "try_catch (Normal w) h = Normal w"
  by (simp add: try_catch_def)

lemma try_catch_Throw [simp]: "try_catch (Throw e w) h = h e w"
  by (simp add: try_catch_def)

lemma finish_task_Normal [simp]: "finish_task (Normal w) = (Done, w)"
  by (simp add: finish_task_def)

lemma world_of_Normal [simp]: "world_of (Normal w) = w"
  by (simp add: world_of_def)

lemma notifyTab_returns: "notifyTab tabId m w = Normal (after_notify tabId m w)"
  by (simp add: notifyTab_def after_notify_def chrome_tabs_sendMessage_def emit_def Let_def
        split: option.splits send_outcome.splits)

section \<open>What each step does to the fields of the state\<close>

lemma emit_fields [simp]:
  "events (emit e w) = events w @ [e]"
  "aborted (emit e w) = aborted w"
  "next_controller (emit e w) = next_controller w"
  "deliver (emit e w) = deliver w"
  by (simp_all add: emit_def)

lemma after_notify_fields [simp]:
  "events (after_notify t m w) =
     events w @ Notified t m #
       (case t of None \<Rightarrow> [] | Some i \<Rightarrow> [Sent i m (deliver w (Suc (length (events w))) i m)])"
  "controllers (after_notify t m w) = controllers w"
  "aborted (after_notify t m w) = aborted w"
  "next_controller (after_notify t m w) = next_controller w"
  "deliver (after_notify t m w) = deliver w"
  by (simp_all add: after_notify_def split: option.splits)

lemma call_add_fields [simp]:
  "events (call_addControllerForTab t c w) = events w @ [Registered t c]"
  "controllers (call_addControllerForTab t c w) = addControllerForTab t c (controllers w)"
  "aborted (call_addControllerForTab t c w) = aborted w"
  "next_controller (call_addControllerForTab t c w) = next_controller w"
  "deliver (call_addControllerForTab t c w) = deliver w"
  by (simp_all add: call_addControllerForTab_def)

lemma call_remove_fields [simp]:
  "events (call_removeControllerForTab t c w) = events w @ [Unregistered t c]"
  "controllers (call_removeControllerForTab t c w) = removeControllerForTab t c (controllers w)"
  "aborted (call_removeControllerForTab t c w) = aborted w"
  "next_controller (call_removeControllerForTab t c w) = next_controller w"
  "deliver (call_removeControllerForTab t c w) = deliver w"
  by (simp_all add: call_removeControllerForTab_def)

lemma fold_abort_fields [simp]:
  "events (fold abort_controller s w) = events w @ map Aborted s"
  "aborted (fold abort_controller s w) = aborted w \<union> set s"
  "next_controller (fold abort_controller s w) = next_controller w"
  "deliver (fold abort_controller s w) = deliver w"
  by (induction s arbitrary: w) (simp_all add: abort_controller_def)

lemma cleanupTab_fields:
  "next_controller (snd (cleanupTab t w)) = next_controller w"
  "deliver (snd (cleanupTab t w)) = deliver w"
  "aborted (snd (cleanupTab t w)) = aborted w \<union> set (handles_of (controllers w) (key_of t))"
  "controllers (snd (cleanupTab t w)) = (controllers w)(key_of t := None)"
  by (auto simp: cleanupTab_def handles_of_def Let_def split: option.splits)

lemma cleanupTab_events:
  "events (snd (cleanupTab t w)) =
     events w @ map Aborted (handles_of (controllers w) (key_of t)) @
     (if controllers w (key_of t) = None then []
      else [Logged (''cleanupTab: aborted '' @
                    show_nat (length (handles_of (controllers w) (key_of t))) @
                    '' request(s) for tab/key: '' @ show_key (key_of t))])"
  by (simp add: cleanupTab_def handles_of_def Let_def split: option.splits)

section \<open>The other flows log only aborts and console lines\<close>

lemma env_step_events:
  "\<exists>es. events (env_step op w) = events w @ es \<and> list_all env_event es"
  by (cases op) (auto simp: cleanupTab_events new_AbortController_def list_all_iff)

lemma fold_env_step_events:
  "\<exists>es. events (fold env_step env w) = events w @ es \<and> list_all env_event es"
proof (induction env arbitrary: w)
  case Nil
  then show ?case by simp
next
  case (Cons op env)
  obtain es1 where 1: "events (env_step op w) = events w @ es1" "list_all env_event es1"
    using env_step_events by blast
  obtain es2 where 2: "events (fold env_step env (env_step op w)) = events (env_step op w) @ es2"
      "list_all env_event es2"
    using Cons.IH by blast
  show ?case using 1 2 by simp
qed

lemma env_trace_env_events: "list_all env_event (env_trace env w)"
  using fold_env_step_events [of env w] by (auto simp: env_trace_def events_since_def)

lemma events_fold_env_step [simp]:
  "events (fold env_step env w) = events w @ env_trace env w"
  using fold_env_step_events [of env w] by (auto simp: env_trace_def events_since_def)

lemma filter_env_trace [simp]:
  assumes "\<And>c. \<not> P (Aborted c)" and "\<And>s. \<not> P (Logged s)"
  shows "filter P (env_trace env w) = []"
proof -
  have "\<not> P e" if "env_event e" for e
    using that assms by (cases e) simp_all
  then show ?thesis
    using env_trace_env_events [of env w] by (auto simp: list_all_iff filter_empty_conv)
qed

lemma map_filter_append:
  "List.map_filter f (xs @ ys) = List.map_filter f xs @ List.map_filter f ys"
  by (simp add: List.map_filter_def)

lemma map_filter_env_trace [simp]:
  assumes "\<And>c. f (Aborted c) = None" and "\<And>s. f (Logged s) = None"
  shows "List.map_filter f (env_trace env w) = []"
proof -
  have "f e = None" if "env_event e" for e
    using that assms by (cases e) simp_all
  then show ?thesis
    using env_trace_env_events [of env w]
    by (auto simp: list_all_iff List.map_filter_def filter_empty_conv)
qed

lemma precedes_env_trace [simp]:
  assumes "\<And>c. \<not> P (Aborted c)" "\<And>s. \<not> P (Logged s)"
    and "\<And>c. \<not> Q (Aborted c)" "\<And>s. \<not> Q (Logged s)"
  shows "precedes P Q (env_trace env w @ ys) = precedes P Q ys"
proof -
  have n: "\<not> P e \<and> \<not> Q e" if "env_event e" for e
    using that assms by (cases e) simp_all
  have "list_all env_event xs \<Longrightarrow> precedes P Q (xs @ ys) = precedes P Q ys" for xs
    by (induction xs) (simp_all add: n)
  then show ?thesis
    using env_trace_env_events by blast
qed

lemma dropWhile_env_trace [simp]:
  assumes "\<And>c. \<not> Q (Aborted c)" "\<And>s. \<not> Q (Logged s)"
  shows "dropWhile (\<lambda>x. \<not> Q x) (env_trace env w @ ys) = dropWhile (\<lambda>x. \<not> Q x) ys"
proof -
  have n: "\<not> Q e" if "env_event e" for e
    using that assms by (cases e) simp_all
  have "list_all env_event xs \<Longrightarrow>
        dropWhile (\<lambda>x. \<not> Q x) (xs @ ys) = dropWhile (\<lambda>x. \<not> Q x) ys" for xs
    by (induction xs) (simp_all add: n)
  then show ?thesis
    using env_trace_env_events by blast
qed

lemma env_step_static:
  "deliver (env_step op w) = deliver w"
  "next_controller w \<le> next_controller (env_step op w)"
  by (cases op; simp add: cleanupTab_fields new_AbortController_def)+

lemma fold_env_step_deliver [simp]: "deliver (fold env_step env w) = deliver w"
  by (induction env arbitrary: w) (simp_all add: env_step_static)

lemma fold_env_step_next: "next_controller w \<le> next_controller (fold env_step env w)"
proof (induction env arbitrary: w)
  case Nil
  then show ?case by simp
next
  case (Cons op env)
  show ?case using Cons.IH [of "env_step op w"] env_step_static(2) [of w op] by simp
qed

section \<open>Membership in the registry\<close>

lemma handles_add:
  "set (handles_of (addControllerForTab t c reg) k) =
     (if k = key_of t then insert c (set (handles_of reg k)) else set (handles_of reg k))"
  by (auto simp: addControllerForTab_def handles_of_def set_add_def Let_def split: option.splits)

lemma removeAll_Nil_member: "removeAll c xs = [] \<Longrightarrow> x \<in> set xs \<Longrightarrow> x = c"
  by (induction xs) (auto split: if_splits)

lemma handles_remove:
  "set (handles_of (removeControllerForTab t c reg) k) =
     (if k = key_of t then set (handles_of reg k) - {c} else set (handles_of reg k))"
  by (auto simp: removeControllerForTab_def handles_of_def set_delete_def Let_def
        split: option.splits dest: removeAll_Nil_member)

lemma handles_cleanup:
  "set (handles_of (controllers (snd (cleanupTab t w))) k) =
     (if k = key_of t then {} else set (handles_of (controllers w) k))"
  by (simp add: cleanupTab_fields handles_of_def)

text \<open>
  A controller created earlier is never registered by another flow: the other flows
  register only controllers they create.
\<close>

lemma env_step_absent:
  "c < next_controller w \<Longrightarrow> c \<notin> set (handles_of (controllers w) k) \<Longrightarrow>
   c \<notin> set (handles_of (controllers (env_step op w)) k)"
  by (cases op) (auto simp: handles_add handles_remove handles_cleanup new_AbortController_def)

lemma fold_env_step_absent:
  "c < next_controller w \<Longrightarrow> c \<notin> set (handles_of (controllers w) k) \<Longrightarrow>
   c \<notin> set (handles_of (controllers (fold env_step env w)) k)"
proof (induction env arbitrary: w)
  case Nil
  then show ?case by simp
next
  case (Cons op env)
  have "c < next_controller (env_step op w)"
    using Cons.prems(1) env_step_static(2) [of w op] by simp
  moreover have "c \<notin> set (handles_of (controllers (env_step op w)) k)"
    using Cons.prems by (rule env_step_absent)
  ultimately show ?case using Cons.IH by simp
qed

section \<open>The handlers in closed form\<close>

lemma summarize_catch_eq:
  "summarize_catch tabId c err w =
     Normal (emit (Replied \<lparr>r_ok = False,
                r_error = Some (if isAbort err then ''Request aborted'' else message_or_string err),
                r_message = None, r_text = None, r_data = None\<rparr>)
       (after_notify tabId
          \<lparr>n_action = ''generation_finished'', n_kind = ''summary'', n_ok = Some False,
           n_error = Some (if isAbort err then ''Request aborted'' else message_or_string err),
           n_text = None, n_data = None\<rparr>
          (call_removeControllerForTab tabId c w)))"
  by (simp add: summarize_catch_def notifyTab_returns sendResponse_def Let_def)

lemma summarize_begin_eq:
  "summarize_begin tabId msg w =
     (next_controller w, AwaitFetch,
      emit (Fetched ''http://localhost:3000/api/summarize''
              (JObj [(''pageContext'', js_or (msg_pageContext msg) JNull),
                     (''length'', js_or (msg_length msg) (JStr ''medium''))])
              (next_controller w))
        (after_notify tabId
           \<lparr>n_action = ''generation_started'', n_kind = ''summary'', n_ok = None,
            n_error = None, n_text = None, n_data = None\<rparr>
           (call_addControllerForTab tabId (next_controller w)
              (w\<lparr>next_controller := Suc (next_controller w)\<rparr>))))"
  by (simp add: summarize_begin_def new_AbortController_def notifyTab_returns Let_def)

lemma query_catch_eq:
  "query_catch tabId c err w =
     Normal (emit (Replied \<lparr>r_ok = False,
                r_error = Some (if isAbort err
                                then ''Request aborted (tab closed or navigation occurred).''
                                else message_or_string err),
                r_message = None, r_text = None, r_data = None\<rparr>)
       (after_notify tabId
          \<lparr>n_action = ''generation_finished'', n_kind = ''query'', n_ok = Some False,
           n_error = Some (if isAbort err
                           then ''Request aborted (tab closed or navigation occurred).''
                           else message_or_string err),
           n_text = None, n_data = None\<rparr>
          (call_removeControllerForTab tabId c w)))"
  by (simp add: query_catch_def notifyTab_returns sendResponse_def Let_def)

lemma query_begin_eq:
  "query_begin tabId msg w =
     (next_controller w, AwaitFetch,
      emit (Fetched ''http://localhost:3000/api/generate''
              (JObj [(''prompt'', msg_prompt msg),
                     (''selectedText'', msg_selectedText msg),
                     (''mode'', js_or (msg_mode msg) (JStr ''general'')),
                     (''task'', js_or (msg_task msg) JNull),
                     (''targetLanguage'', js_or (msg_targetLanguage msg) JNull),
                     (''pageContext'', js_or (msg_pageContext msg) JNull)])
              (next_controller w))
        (after_notify tabId
           \<lparr>n_action = ''generation_started'', n_kind = ''query'', n_ok = None,
            n_error = None, n_text = None, n_data = None\<rparr>
           (call_addControllerForTab tabId (next_controller w)
              (w\<lparr>next_controller := Suc (next_controller w)\<rparr>))))"
  by (simp add: query_begin_def new_AbortController_def notifyTab_returns Let_def)

lemmas summarize_unfold =
  run_summarize_def summarize_begin_eq summarize_fetch_settled_def
  summarize_text_settled_def summarize_json_settled_def summarize_catch_eq
  notifyTab_returns sendResponse_def Let_def

lemmas query_unfold =
  run_query_def query_begin_eq query_fetch_settled_def
  query_text_settled_def query_json_settled_def query_catch_eq
  notifyTab_returns sendResponse_def Let_def

text \<open>Unfolding for concrete inputs.\<close>

lemmas eval_defs =
  initial_world_def emit_def after_notify_def call_addControllerForTab_def
  call_removeControllerForTab_def addControllerForTab_def removeControllerForTab_def
  key_of_def set_add_def set_delete_def handles_of_def count_events_def replies_def
  notifications_def sent_messages_def List.map_filter_def events_since_def
  show_nat.simps show_int_def show_key_def digit_def res_ok_def isAbort_def
  message_or_string_def error_to_string_def js_or_def world_of_def new_AbortController_def

section \<open>One invocation: the handle and the calls of \<^verbatim>\<open>removeControllerForTab\<close>\<close>

lemma run_summarize_absent:
  assumes "next_controller w \<notin> set (handles_of (controllers w) k)"
  shows "case run_summarize tabId msg env1 fr env2 w of (c, st, w') \<Rightarrow>
     c \<notin> set (handles_of (controllers w') k)"
proof -
  let ?c = "next_controller w"
  have a: "?c \<notin> set (handles_of (controllers (fold env_step env v)) k)"
    if "?c < next_controller v" "?c \<notin> set (handles_of (controllers v) k)" for env v
    using that by (rule fold_env_step_absent)
  have lt: "?c < next_controller (fold env_step env v)" if "?c < next_controller v" for env v
    using that fold_env_step_next [of v env] by simp
  show ?thesis
  proof (cases "k = key_of tabId")
    case True
    have a': "?c \<notin> set (handles_of (controllers (fold env_step env v)) (key_of tabId))"
      if "?c < next_controller v" "?c \<notin> set (handles_of (controllers v) (key_of tabId))"
      for env v
      using that by (rule fold_env_step_absent)
    show ?thesis
      unfolding True
      by (cases fr) (auto simp: summarize_unfold handles_remove a' lt split: sum.splits)
  next
    case False
    then show ?thesis
      using assms
      by (cases fr)
         (auto simp: summarize_unfold handles_remove handles_add a lt split: sum.splits)
  qed
qed

lemma run_query_absent:
  assumes "next_controller w \<notin> set (handles_of (controllers w) k)"
  shows "case run_query tabId msg env1 fr env2 w of (c, st, w') \<Rightarrow>
     c \<notin> set (handles_of (controllers w') k)"
proof -
  let ?c = "next_controller w"
  have a: "?c \<notin> set (handles_of (controllers (fold env_step env v)) k)"
    if "?c < next_controller v" "?c \<notin> set (handles_of (controllers v) k)" for env v
    using that by (rule fold_env_step_absent)
  have lt: "?c < next_controller (fold env_step env v)" if "?c < next_controller v" for env v
    using that fold_env_step_next [of v env] by simp
  show ?thesis
  proof (cases "k = key_of tabId")
    case True
    have a': "?c \<notin> set (handles_of (controllers (fold env_step env v)) (key_of tabId))"
      if "?c < next_controller v" "?c \<notin> set (handles_of (controllers v) (key_of tabId))"
      for env v
      using that by (rule fold_env_step_absent)
    show ?thesis
      unfolding True
      by (cases fr) (auto simp: query_unfold handles_remove a' lt split: sum.splits)
  next
    case False
    then show ?thesis
      using assms
      by (cases fr)
         (auto simp: query_unfold handles_remove handles_add a lt split: sum.splits)
  qed
qed

lemma run_summarize_unregister_count:
  "case run_summarize tabId msg env1 fr env2 w of (c, st, w') \<Rightarrow>
     c = next_controller w \<and> st = Done \<and>
     count_events (is_unregister_of tabId c) w' =
       count_events (is_unregister_of tabId c) w +
       (case fr of Rejected err \<Rightarrow> 1
        | Resolved res \<Rightarrow> if res_ok res \<and> isl (body_json res) then 2 else 1)"
  by (cases fr)
     (auto simp: summarize_unfold count_events_def split: sum.splits option.splits)

lemma run_query_unregister_count:
  "case run_query tabId msg env1 fr env2 w of (c, st, w') \<Rightarrow>
     c = next_controller w \<and> st = Done \<and>
     count_events (is_unregister_of tabId c) w' =
       count_events (is_unregister_of tabId c) w +
       (case fr of Rejected err \<Rightarrow> 1
        | Resolved res \<Rightarrow> if res_ok res \<and> isl (body_json res) then 2 else 1)"
  by (cases fr)
     (auto simp: query_unfold count_events_def split: sum.splits option.splits)

section \<open>One invocation: order, replies and notifications\<close>

lemma run_summarize_order:
  "case run_summarize tabId msg env1 fr env2 w of (c, st, w') \<Rightarrow>
     length (filter is_started (events_since w w')) = 1 \<and>
     length (filter is_fetch (events_since w w')) = 1 \<and>
     length (filter is_settled (events_since w w')) = 1 \<and>
     length (filter is_finished (events_since w w')) = 1 \<and>
     length (filter is_reply (events_since w w')) = 1 \<and>
     precedes is_started is_fetch (events_since w w') \<and>
     precedes is_fetch is_settled (events_since w w') \<and>
     precedes is_settled is_finished (events_since w w') \<and>
     precedes is_settled is_reply (events_since w w') \<and>
     precedes is_unregister is_finished (events_since w w') \<and>
     none_from is_finished is_unregister (events_since w w') \<and>
     length (filter is_unregister (events_since w w')) =
       (case fr of Rejected err \<Rightarrow> 1
        | Resolved res \<Rightarrow> if res_ok res \<and> isl (body_json res) then 2 else 1)"
  by (cases fr; cases tabId)
     (auto simp: summarize_unfold events_since_def none_from_def split: sum.splits)

lemma run_query_order:
  "case run_query tabId msg env1 fr env2 w of (c, st, w') \<Rightarrow>
     length (filter is_started (events_since w w')) = 1 \<and>
     length (filter is_fetch (events_since w w')) = 1 \<and>
     length (filter is_settled (events_since w w')) = 1 \<and>
     length (filter is_finished (events_since w w')) = 1 \<and>
     length (filter is_reply (events_since w w')) = 1 \<and>
     precedes is_started is_fetch (events_since w w') \<and>
     precedes is_fetch is_settled (events_since w w') \<and>
     precedes is_settled is_finished (events_since w w') \<and>
     precedes is_settled is_reply (events_since w w') \<and>
     precedes is_unregister is_finished (events_since w w') \<and>
     none_from is_finished is_unregister (events_since w w') \<and>
     length (filter is_unregister (events_since w w')) =
       (case fr of Rejected err \<Rightarrow> 1
        | Resolved res \<Rightarrow> if res_ok res \<and> isl (body_json res) then 2 else 1)"
  by (cases fr; cases tabId)
     (auto simp: query_unfold events_since_def none_from_def split: sum.splits)

lemma run_summarize_success:
  assumes "res_ok res" and "body_json res = Inr data"
  shows "case run_summarize tabId msg env1 (Resolved res) env2 w of (c, st, w') \<Rightarrow>
     st = Done \<and>
     replies w' = replies w @
       [\<lparr>r_ok = truthy (opt_prop data ''ok''), r_error = None, r_message = None,
         r_text = Some (opt_prop data ''text''), r_data = Some data\<rparr>] \<and>
     notifications w' = notifications w @
       [(tabId, \<lparr>n_action = ''generation_started'', n_kind = ''summary'', n_ok = None,
                 n_error = None, n_text = None, n_data = None\<rparr>),
        (tabId, \<lparr>n_action = ''generation_finished'', n_kind = ''summary'', n_ok = Some True,
                 n_error = None, n_text = Some (opt_prop data ''text''),
                 n_data = Some data\<rparr>)] \<and>
     sent_messages w' = sent_messages w @
       (case tabId of
          None \<Rightarrow> []
        | Some t \<Rightarrow>
            [(t, \<lparr>n_action = ''generation_started'', n_kind = ''summary'', n_ok = None,
                  n_error = None, n_text = None, n_data = None\<rparr>),
             (t, \<lparr>n_action = ''generation_finished'', n_kind = ''summary'', n_ok = Some True,
                  n_error = None, n_text = Some (opt_prop data ''text''),
                  n_data = Some data\<rparr>)])"
  using assms
  by (cases tabId)
     (simp_all add: summarize_unfold replies_def notifications_def sent_messages_def
        map_filter_append List.map_filter_simps)

lemma run_query_success:
  assumes "res_ok res" and "body_json res = Inr data"
  shows "case run_query tabId msg env1 (Resolved res) env2 w of (c, st, w') \<Rightarrow>
     st = Done \<and>
     replies w' = replies w @
       [\<lparr>r_ok = True, r_error = None, r_message = None, r_text = None, r_data = Some data\<rparr>] \<and>
     notifications w' = notifications w @
       [(tabId, \<lparr>n_action = ''generation_started'', n_kind = ''query'', n_ok = None,
                 n_error = None, n_text = None, n_data = None\<rparr>),
        (tabId, \<lparr>n_action = ''generation_finished'', n_kind = ''query'', n_ok = Some True,
                 n_error = None, n_text = None, n_data = Some data\<rparr>)] \<and>
     sent_messages w' = sent_messages w @
       (case tabId of
          None \<Rightarrow> []
        | Some t \<Rightarrow>
            [(t, \<lparr>n_action = ''generation_started'', n_kind = ''query'', n_ok = None,
                  n_error = None, n_text = None, n_data = None\<rparr>),
             (t, \<lparr>n_action = ''generation_finished'', n_kind = ''query'', n_ok = Some True,
                  n_error = None, n_text = None, n_data = Some data\<rparr>)])"
  using assms
  by (cases tabId)
     (simp_all add: query_unfold replies_def notifications_def sent_messages_def
        map_filter_append List.map_filter_simps)

lemma run_summarize_upstream_error:
  assumes "\<not> res_ok res"
  shows "case run_summarize tabId msg env1 (Resolved res) env2 w of (c, st, w') \<Rightarrow>
     st = Done \<and>
     replies w' = replies w @
       [\<lparr>r_ok = False,
         r_error = Some (''Server error '' @ show_nat (res_status res) @ '': '' @
                         (case body_text res of Inl e \<Rightarrow> ''<unable to read>'' | Inr s \<Rightarrow> s)),
         r_message = None, r_text = None, r_data = None\<rparr>] \<and>
     count_events is_fetch w' = count_events is_fetch w + 1"
  using assms
  by (cases tabId)
     (simp_all add: summarize_unfold replies_def count_events_def
        map_filter_append List.map_filter_simps)

lemma run_query_upstream_error:
  assumes "\<not> res_ok res"
  shows "case run_query tabId msg env1 (Resolved res) env2 w of (c, st, w') \<Rightarrow>
     st = Done \<and>
     replies w' = replies w @
       [\<lparr>r_ok = False,
         r_error = Some (''Server error '' @ show_nat (res_status res) @ '': '' @
                         (case body_text res of
                            Inl e \<Rightarrow> ''<failed to read body: '' @ err_message e @ ''>''
                          | Inr s \<Rightarrow> s)),
         r_message = None, r_text = None, r_data = None\<rparr>] \<and>
     count_events is_fetch w' = count_events is_fetch w + 1"
  using assms
  by (cases tabId)
     (simp_all add: query_unfold replies_def count_events_def
        map_filter_append List.map_filter_simps)

lemma status_200_is_ok:
  assumes "res_status res = 200"
  shows "res_ok res"
  using assms by (simp add: res_ok_def)

lemma run_summarize_replies:
  "case run_summarize tabId msg env1 fr env2 w of (c, st, w') \<Rightarrow>
     st = Done \<and>
     replies w' = replies w @
       [case fr of
          Rejected err \<Rightarrow>
            \<lparr>r_ok = False,
             r_error = Some (if isAbort err then ''Request aborted'' else message_or_string err),
             r_message = None, r_text = None, r_data = None\<rparr>
        | Resolved res \<Rightarrow>
            if \<not> res_ok res then
              \<lparr>r_ok = False,
               r_error = Some (''Server error '' @ show_nat (res_status res) @ '': '' @
                         (case body_text res of Inl e \<Rightarrow> ''<unable to read>'' | Inr s \<Rightarrow> s)),
               r_message = None, r_text = None, r_data = None\<rparr>
            else (case body_json res of
                    Inl err \<Rightarrow>
                      \<lparr>r_ok = False,
                       r_error = Some (if isAbort err then ''Request aborted''
                                       else message_or_string err),
                       r_message = None, r_text = None, r_data = None\<rparr>
                  | Inr data \<Rightarrow>
                      \<lparr>r_ok = truthy (opt_prop data ''ok''), r_error = None, r_message = None,
                       r_text = Some (opt_prop data ''text''), r_data = Some data\<rparr>)]"
  by (cases fr; cases tabId)
     (auto simp: summarize_unfold replies_def map_filter_append List.map_filter_simps
        split: sum.splits)

lemma run_query_replies:
  "case run_query tabId msg env1 fr env2 w of (c, st, w') \<Rightarrow>
     st = Done \<and>
     replies w' = replies w @
       [case fr of
          Rejected err \<Rightarrow>
            \<lparr>r_ok = False,
             r_error = Some (if isAbort err
                             then ''Request aborted (tab closed or navigation occurred).''
                             else message_or_string err),
             r_message = None, r_text = None, r_data = None\<rparr>
        | Resolved res \<Rightarrow>
            if \<not> res_ok res then
              \<lparr>r_ok = False,
               r_error = Some (''Server error '' @ show_nat (res_status res) @ '': '' @
                         (case body_text res of
                            Inl e \<Rightarrow> ''<failed to read body: '' @ err_message e @ ''>''
                          | Inr s \<Rightarrow> s)),
               r_message = None, r_text = None, r_data = None\<rparr>
            else (case body_json res of
                    Inl err \<Rightarrow>
                      \<lparr>r_ok = False,
                       r_error = Some (if isAbort err
                                       then ''Request aborted (tab closed or navigation occurred).''
                                       else message_or_string err),
                       r_message = None, r_text = None, r_data = None\<rparr>
                  | Inr data \<Rightarrow>
                      \<lparr>r_ok = True, r_error = None, r_message = None, r_text = None,
                       r_data = Some data\<rparr>)]"
  by (cases fr; cases tabId)
     (auto simp: query_unfold replies_def map_filter_append List.map_filter_simps
        split: sum.splits)

lemma replies_deliver_update [simp]: "replies (w\<lparr>deliver := d\<rparr>) = replies w"
  by (simp add: replies_def)

section \<open>Claims about the registry\<close>

text \<open>
  C1. After any sequence of \<^verbatim>\<open>addControllerForTab\<close>, \<^verbatim>\<open>removeControllerForTab\<close>
  and \<^verbatim>\<open>cleanupTab\<close> calls on the initially empty map, a key is present in
  \<^verbatim>\<open>activeFetchControllers\<close> exactly when the set of handles registered under it is
  not empty: no key is ever left with an empty set.
\<close>

theorem registry_key_present_iff_nonempty:
  "(k \<in> dom (controllers (fold apply_op ops (initial_world d)))) =
   (handles_of (controllers (fold apply_op ops (initial_world d))) k \<noteq> [])"
  using reachable_no_empty [of ops d k]
  by (auto simp: handles_of_def dom_def split: option.splits)

theorem registry_key_present_iff_nonempty_witness:
  "(TabKey 7 \<in> dom (controllers (fold apply_op
       [Register (Some 7) 0, Register (Some 7) 1, Unregister (Some 7) 0, Unregister (Some 7) 1]
       (initial_world delivering)))) =
   (handles_of (controllers (fold apply_op
       [Register (Some 7) 0, Register (Some 7) 1, Unregister (Some 7) 0, Unregister (Some 7) 1]
       (initial_world delivering))) (TabKey 7) \<noteq> [])"
  by (rule registry_key_present_iff_nonempty)

text \<open>
  C2, as the code has it. \<^verbatim>\<open>cleanupTab\<close> evaluates to \<^verbatim>\<open>undefined\<close>, not to a
  count. It fires the token of every handle registered under the key (a token that has
  fired already stays fired, nothing is thrown), removes the key and leaves every other
  key alone; its calls are one \<^verbatim>\<open>abort()\<close> per handle, in insertion order, then one
  console line holding the count. For a key with no entry it changes nothing at all. The
  \<^verbatim>\<open>abort_requests\<close> branch runs \<^verbatim>\<open>cleanupTab\<close> and replies before it returns,
  with \<^verbatim>\<open>ok: true\<close> and a message that names the tab (or says "non-tab"), not the count.
\<close>

theorem cleanupTab_aborts_all_then_removes_key:
  "fst (cleanupTab t w) = JUndefined \<and>
   aborted (snd (cleanupTab t w)) = aborted w \<union> set (handles_of (controllers w) (key_of t)) \<and>
   controllers (snd (cleanupTab t w)) = (controllers w)(key_of t := None) \<and>
   events (snd (cleanupTab t w)) =
     events w @ map Aborted (handles_of (controllers w) (key_of t)) @
     (if controllers w (key_of t) = None then []
      else [Logged (''cleanupTab: aborted '' @
                    show_nat (length (handles_of (controllers w) (key_of t))) @
                    '' request(s) for tab/key: '' @ show_key (key_of t))]) \<and>
   (controllers w (key_of t) = None \<longrightarrow> snd (cleanupTab t w) = w) \<and>
   returned (on_abort_requests t w) \<and>
   controllers (world_of (on_abort_requests t w)) = (controllers w)(key_of t := None) \<and>
   replies (world_of (on_abort_requests t w)) =
     replies w @
     [\<lparr>r_ok = True, r_error = None,
       r_message = Some (case t of Some i \<Rightarrow> ''aborted for tab '' @ show_int i
                         | None \<Rightarrow> ''aborted non-tab controllers''),
       r_text = None, r_data = None\<rparr>]"
proof -
  have ret: "fst (cleanupTab t w) = JUndefined"
    by (simp add: cleanupTab_def Let_def split: option.splits)
  have noop: "controllers w (key_of t) = None \<longrightarrow> snd (cleanupTab t w) = w"
    by (simp add: cleanupTab_def)
  have rep_env: "replies (snd (cleanupTab t' w)) = replies w" for t'
    by (simp add: replies_def cleanupTab_events map_filter_append)
       (simp add: List.map_filter_def)
  have abort_tab: "on_abort_requests t w =
      Normal (emit (Replied \<lparr>r_ok = True, r_error = None,
                r_message = Some (case t of Some i \<Rightarrow> ''aborted for tab '' @ show_int i
                                  | None \<Rightarrow> ''aborted non-tab controllers''),
                r_text = None, r_data = None\<rparr>) (snd (cleanupTab t w)))"
    by (cases t) (simp_all add: on_abort_requests_def sendResponse_def)
  have rep: "replies (world_of (on_abort_requests t w)) =
     replies w @
     [\<lparr>r_ok = True, r_error = None,
       r_message = Some (case t of Some i \<Rightarrow> ''aborted for tab '' @ show_int i
                         | None \<Rightarrow> ''aborted non-tab controllers''),
       r_text = None, r_data = None\<rparr>]"
    using rep_env [of t]
    by (simp add: abort_tab replies_def map_filter_append List.map_filter_simps)
  show ?thesis
    using ret noop rep
    by (simp add: cleanupTab_fields cleanupTab_events abort_tab)
qed

text \<open>Two handles on tab 7, and an empty registry.\<close>

theorem cleanupTab_aborts_all_then_removes_key_witness:
  "aborted (snd (cleanupTab (Some 7)
      (fold apply_op [Register (Some 7) 0, Register (Some 7) 1]
         (initial_world delivering)))) = {0, 1} \<and>
   events (snd (cleanupTab (Some 7)
      (fold apply_op [Register (Some 7) 0, Register (Some 7) 1]
         (initial_world delivering)))) =
     [Aborted 0, Aborted 1, Logged ''cleanupTab: aborted 2 request(s) for tab/key: 7''] \<and>
   controllers (initial_world delivering) (key_of (Some 7)) = None \<and>
   snd (cleanupTab (Some 7) (initial_world delivering)) =
     initial_world delivering"
proof -
  have h: "controllers (initial_world delivering) (key_of (Some 7)) = None"
    by (simp add: initial_world_def)
  show ?thesis
    using h
      cleanupTab_aborts_all_then_removes_key [of "Some 7"
        "fold apply_op [Register (Some 7) 0, Register (Some 7) 1]
           (initial_world delivering)"]
      cleanupTab_aborts_all_then_removes_key [of "Some 7" "initial_world delivering"]
    by (simp add: eval_defs insert_commute)
qed

text \<open>
  With two handles registered for tab 7, \<^verbatim>\<open>cleanupTab(7)\<close> does not evaluate to 2 and
  the reply to \<^verbatim>\<open>abort_requests\<close> carries no count.
\<close>

theorem cleanupTab_returns_no_count_counterexample:
  "handles_of (controllers (fold apply_op [Register (Some 7) 0, Register (Some 7) 1]
                  (initial_world delivering))) (TabKey 7) = [0, 1] \<and>
   fst (cleanupTab (Some 7) (fold apply_op [Register (Some 7) 0, Register (Some 7) 1]
                  (initial_world delivering))) = JUndefined \<and>
   JUndefined \<noteq> JNum (Finite 2) \<and>
   replies (world_of (on_abort_requests (Some 7)
              (fold apply_op [Register (Some 7) 0, Register (Some 7) 1]
                  (initial_world delivering)))) =
     [\<lparr>r_ok = True, r_error = None, r_message = Some ''aborted for tab 7'', r_text = None,
       r_data = None\<rparr>]"
  by (simp add: cleanupTab_def on_abort_requests_def sendResponse_def abort_controller_def
        eval_defs Let_def)

text \<open>
  C8. In a registry reached by the three operations, \<^verbatim>\<open>removeControllerForTab\<close> for a
  handle that is not registered under the key of the given tab (the key itself may be
  absent) returns the map unchanged. The function has no statement that can throw, which
  is why its model is a total function on maps.
\<close>

theorem removeControllerForTab_unregistered_noop:
  "c \<notin> set (handles_of (controllers (fold apply_op ops (initial_world d))) (key_of t)) \<Longrightarrow>
   removeControllerForTab t c (controllers (fold apply_op ops (initial_world d))) =
   controllers (fold apply_op ops (initial_world d))"
  using reachable_no_empty [of ops d "key_of t"]
  by (auto simp: removeControllerForTab_def handles_of_def set_delete_def Let_def
        split: option.splits)

theorem removeControllerForTab_unregistered_noop_witness:
  "1 \<notin> set (handles_of (controllers (fold apply_op [Register (Some 7) 0]
              (initial_world delivering))) (key_of (Some 7))) \<and>
   removeControllerForTab (Some 7) 1
     (controllers (fold apply_op [Register (Some 7) 0] (initial_world delivering))) =
   controllers (fold apply_op [Register (Some 7) 0] (initial_world delivering))"
proof -
  have h: "1 \<notin> set (handles_of (controllers (fold apply_op [Register (Some 7) 0]
              (initial_world delivering))) (key_of (Some 7)))"
    by (simp add: initial_world_def addControllerForTab_def key_of_def handles_of_def
          set_add_def)
  show ?thesis
    using h removeControllerForTab_unregistered_noop [OF h] by (rule conjI)
qed

section \<open>Claims about one invocation\<close>

text \<open>
  C3, as the code has it. In an invocation of either handler, with any other flows
  running at its \<^verbatim>\<open>await\<close>s and whatever the fetch and the body read settle with:
  the handler ends (\<open>Done\<close>); it calls \<^verbatim>\<open>removeControllerForTab\<close> for its new
  controller once, except that it calls it twice when the fetch resolved with a 2xx
  status and \<^verbatim>\<open>res.json()\<close> then rejected (once after the fetch, once more in the
  \<^verbatim>\<open>catch\<close>); and afterwards the controller is not registered under any key
  \<open>k\<close> whose set did not hold it before it was created (a new object is in no set,
  so this is every key).
\<close>

theorem unregister_once_or_twice_then_absent:
  assumes "next_controller w \<notin> set (handles_of (controllers w) k)"
  shows "(case run_summarize tabId msg env1 fr env2 w of (c, st, w') \<Rightarrow>
      c = next_controller w \<and> st = Done \<and>
      count_events (is_unregister_of tabId c) w' =
        count_events (is_unregister_of tabId c) w +
        (case fr of Rejected err \<Rightarrow> 1
         | Resolved res \<Rightarrow> if res_ok res \<and> isl (body_json res) then 2 else 1) \<and>
      c \<notin> set (handles_of (controllers w') k)) \<and>
   (case run_query tabId msg env1 fr env2 w of (c, st, w') \<Rightarrow>
      c = next_controller w \<and> st = Done \<and>
      count_events (is_unregister_of tabId c) w' =
        count_events (is_unregister_of tabId c) w +
        (case fr of Rejected err \<Rightarrow> 1
         | Resolved res \<Rightarrow> if res_ok res \<and> isl (body_json res) then 2 else 1) \<and>
      c \<notin> set (handles_of (controllers w') k))"
proof (rule conjI)
  show "case run_summarize tabId msg env1 fr env2 w of (c, st, w') \<Rightarrow>
      c = next_controller w \<and> st = Done \<and>
      count_events (is_unregister_of tabId c) w' =
        count_events (is_unregister_of tabId c) w +
        (case fr of Rejected err \<Rightarrow> 1
         | Resolved res \<Rightarrow> if res_ok res \<and> isl (body_json res) then 2 else 1) \<and>
      c \<notin> set (handles_of (controllers w') k)"
    using run_summarize_unregister_count [where tabId = tabId and msg = msg and ?env1.0 = env1
        and fr = fr and ?env2.0 = env2 and w = w]
      run_summarize_absent [OF assms, where tabId = tabId and msg = msg and ?env1.0 = env1
        and fr = fr and ?env2.0 = env2]
    by (simp split: prod.splits)
  show "case run_query tabId msg env1 fr env2 w of (c, st, w') \<Rightarrow>
      c = next_controller w \<and> st = Done \<and>
      count_events (is_unregister_of tabId c) w' =
        count_events (is_unregister_of tabId c) w +
        (case fr of Rejected err \<Rightarrow> 1
         | Resolved res \<Rightarrow> if res_ok res \<and> isl (body_json res) then 2 else 1) \<and>
      c \<notin> set (handles_of (controllers w') k)"
    using run_query_unregister_count [where tabId = tabId and msg = msg and ?env1.0 = env1
        and fr = fr and ?env2.0 = env2 and w = w]
      run_query_absent [OF assms, where tabId = tabId and msg = msg and ?env1.0 = env1
        and fr = fr and ?env2.0 = env2]
    by (simp split: prod.splits)
qed

text \<open>
  A fetch that fails while another request registers its own controller on the same tab:
  one call, and only the other request's controller stays registered.
\<close>

theorem unregister_once_or_twice_then_absent_witness:
  "next_controller (initial_world delivering) \<notin>
     set (handles_of (controllers (initial_world delivering)) (TabKey 7)) \<and>
   count_events (is_unregister_of (Some 7) 0)
     (snd (snd (run_summarize (Some 7)
        \<lparr>msg_prompt = JUndefined, msg_selectedText = JUndefined, msg_mode = JUndefined,
         msg_task = JUndefined, msg_targetLanguage = JUndefined,
         msg_pageContext = JUndefined, msg_length = JStr ''short''\<rparr>
        [EnvRegister (Some 7)]
        (Rejected \<lparr>err_name = ''TypeError'', err_message = ''Failed to fetch''\<rparr>)
        []
        (initial_world delivering)))) = 1 \<and>
   handles_of (controllers (snd (snd (run_summarize (Some 7)
        \<lparr>msg_prompt = JUndefined, msg_selectedText = JUndefined, msg_mode = JUndefined,
         msg_task = JUndefined, msg_targetLanguage = JUndefined,
         msg_pageContext = JUndefined, msg_length = JStr ''short''\<rparr>
        [EnvRegister (Some 7)]
        (Rejected \<lparr>err_name = ''TypeError'', err_message = ''Failed to fetch''\<rparr>)
        []
        (initial_world delivering))))) (TabKey 7) = [1]"
proof -
  have h: "next_controller (initial_world delivering) \<notin>
     set (handles_of (controllers (initial_world delivering)) (TabKey 7))"
    by (simp add: initial_world_def handles_of_def)
  show ?thesis
    using h unregister_once_or_twice_then_absent [OF h, where tabId = "Some 7"
        and msg = "\<lparr>msg_prompt = JUndefined, msg_selectedText = JUndefined, msg_mode = JUndefined,
         msg_task = JUndefined, msg_targetLanguage = JUndefined,
         msg_pageContext = JUndefined, msg_length = JStr ''short''\<rparr>"
        and ?env1.0 = "[EnvRegister (Some 7)]"
        and fr = "Rejected \<lparr>err_name = ''TypeError'', err_message = ''Failed to fetch''\<rparr>"
        and ?env2.0 = "[]"]
    by (simp add: summarize_unfold eval_defs split: prod.splits)
qed

text \<open>
  The claim's "exactly once" fails: a 200 response whose body is not JSON makes the
  \<^verbatim>\<open>summarize_page\<close> handler call \<^verbatim>\<open>removeControllerForTab\<close> twice.
\<close>

theorem summarize_unregisters_twice_counterexample:
  "count_events (is_unregister_of (Some 7) 0)
     (snd (snd (run_summarize (Some 7)
        \<lparr>msg_prompt = JUndefined, msg_selectedText = JUndefined, msg_mode = JUndefined,
         msg_task = JUndefined, msg_targetLanguage = JUndefined,
         msg_pageContext = JUndefined, msg_length = JStr ''short''\<rparr>
        []
        (Resolved \<lparr>res_status = 200, body_text = Inr ''<html>'',
                   body_json = Inl \<lparr>err_name = ''SyntaxError'',
                                     err_message = ''Unexpected token''\<rparr>\<rparr>)
        []
        (initial_world delivering)))) = 2"
  by (simp add: summarize_unfold eval_defs)



text \<open>
  C5, as the code has it. In the log of one invocation of either handler, with any other
  flows running at its \<^verbatim>\<open>await\<close>s: the start notification, the fetch, its
  settlement, the finish notification and the reply occur once each; the start
  notification comes before the fetch; the finish notification and the reply come after
  the settlement; every \<^verbatim>\<open>removeControllerForTab\<close> call comes before the finish
  notification; and there is one such call, or two when a 2xx body fails to parse.
  (A notification is the call of \<^verbatim>\<open>notifyTab\<close>.)
\<close>

theorem invocation_events_in_order:
  "(case run_summarize tabId msg env1 fr env2 w of (c, st, w') \<Rightarrow>
      invocation_order fr (events_since w w')) \<and>
   (case run_query tabId msg env1 fr env2 w of (c, st, w') \<Rightarrow>
      invocation_order fr (events_since w w'))"
proof (rule conjI)
  show "case run_summarize tabId msg env1 fr env2 w of (c, st, w') \<Rightarrow>
      invocation_order fr (events_since w w')"
    using run_summarize_order [where tabId = tabId and msg = msg and ?env1.0 = env1
        and fr = fr and ?env2.0 = env2 and w = w]
    by (simp add: invocation_order_def split: prod.splits)
  show "case run_query tabId msg env1 fr env2 w of (c, st, w') \<Rightarrow>
      invocation_order fr (events_since w w')"
    using run_query_order [where tabId = tabId and msg = msg and ?env1.0 = env1
        and fr = fr and ?env2.0 = env2 and w = w]
    by (simp add: invocation_order_def split: prod.splits)
qed

text \<open>A fetch that fails on the network.\<close>

theorem invocation_events_in_order_witness:
  "events_since (initial_world delivering)
     (snd (snd (run_query (Some 7)
        \<lparr>msg_prompt = JStr ''hi'', msg_selectedText = JStr '''', msg_mode = JUndefined,
         msg_task = JUndefined, msg_targetLanguage = JUndefined,
         msg_pageContext = JUndefined, msg_length = JUndefined\<rparr>
        [] (Rejected \<lparr>err_name = ''TypeError'', err_message = ''Failed to fetch''\<rparr>) []
        (initial_world delivering)))) \<noteq> [] \<and>
   invocation_order (Rejected \<lparr>err_name = ''TypeError'', err_message = ''Failed to fetch''\<rparr>)
     (events_since (initial_world delivering)
        (snd (snd (run_query (Some 7)
           \<lparr>msg_prompt = JStr ''hi'', msg_selectedText = JStr '''', msg_mode = JUndefined,
            msg_task = JUndefined, msg_targetLanguage = JUndefined,
            msg_pageContext = JUndefined, msg_length = JUndefined\<rparr>
           [] (Rejected \<lparr>err_name = ''TypeError'', err_message = ''Failed to fetch''\<rparr>) []
           (initial_world delivering)))))"
proof -
  have ne: "events_since (initial_world delivering)
     (snd (snd (run_query (Some 7)
        \<lparr>msg_prompt = JStr ''hi'', msg_selectedText = JStr '''', msg_mode = JUndefined,
         msg_task = JUndefined, msg_targetLanguage = JUndefined,
         msg_pageContext = JUndefined, msg_length = JUndefined\<rparr>
        [] (Rejected \<lparr>err_name = ''TypeError'', err_message = ''Failed to fetch''\<rparr>) []
        (initial_world delivering)))) \<noteq> []"
    by (simp add: query_unfold eval_defs)
  show ?thesis
    using ne invocation_events_in_order [where tabId = "Some 7"
        and msg = "\<lparr>msg_prompt = JStr ''hi'', msg_selectedText = JStr '''', msg_mode = JUndefined,
         msg_task = JUndefined, msg_targetLanguage = JUndefined,
         msg_pageContext = JUndefined, msg_length = JUndefined\<rparr>"
        and ?env1.0 = "[]"
        and fr = "Rejected \<lparr>err_name = ''TypeError'', err_message = ''Failed to fetch''\<rparr>"
        and ?env2.0 = "[]" and w = "initial_world delivering"]
    by (simp split: prod.splits)
qed

text \<open>
  The claim's "exactly once" for unregister fails: a 200 response whose body is not JSON
  makes the \<^verbatim>\<open>query_gemini\<close> handler call \<^verbatim>\<open>removeControllerForTab\<close> twice.
\<close>

theorem query_unregisters_twice_counterexample:
  "length (filter is_unregister
     (events_since (initial_world delivering)
        (snd (snd (run_query (Some 7)
           \<lparr>msg_prompt = JStr ''hi'', msg_selectedText = JStr '''', msg_mode = JUndefined,
            msg_task = JUndefined, msg_targetLanguage = JUndefined,
            msg_pageContext = JUndefined, msg_length = JUndefined\<rparr>
           []
           (Resolved \<lparr>res_status = 200, body_text = Inr ''<html>'',
                      body_json = Inl \<lparr>err_name = ''SyntaxError'',
                                        err_message = ''Unexpected token''\<rparr>\<rparr>)
           []
           (initial_world delivering)))))) = 2"
  by (simp add: query_unfold eval_defs)

text \<open>
  C6. When the fetch resolves with a status outside 200..299, either handler ends
  (\<open>Done\<close>) by replying \<^verbatim>\<open>ok: false\<close> with the error
  \<^verbatim>\<open>Server error <status>: <body>\<close>, where the body is the text read from the response
  or, when reading it fails, the handler's placeholder; and the invocation has made one
  fetch only.
\<close>

theorem non_2xx_gives_server_error_once:
  assumes "\<not> res_ok res"
  shows "(case run_summarize tabId msg env1 (Resolved res) env2 w of (c, st, w') \<Rightarrow>
     st = Done \<and>
     replies w' = replies w @
       [\<lparr>r_ok = False,
         r_error = Some (''Server error '' @ show_nat (res_status res) @ '': '' @
                         (case body_text res of Inl e \<Rightarrow> ''<unable to read>'' | Inr s \<Rightarrow> s)),
         r_message = None, r_text = None, r_data = None\<rparr>] \<and>
     count_events is_fetch w' = count_events is_fetch w + 1) \<and>
   (case run_query tabId msg env1 (Resolved res) env2 w of (c, st, w') \<Rightarrow>
     st = Done \<and>
     replies w' = replies w @
       [\<lparr>r_ok = False,
         r_error = Some (''Server error '' @ show_nat (res_status res) @ '': '' @
                         (case body_text res of
                            Inl e \<Rightarrow> ''<failed to read body: '' @ err_message e @ ''>''
                          | Inr s \<Rightarrow> s)),
         r_message = None, r_text = None, r_data = None\<rparr>] \<and>
     count_events is_fetch w' = count_events is_fetch w + 1)"
  using run_summarize_upstream_error [OF assms] run_query_upstream_error [OF assms]
  by (rule conjI)

text \<open>HTTP 500 with body \<^verbatim>\<open>oops\<close>.\<close>

theorem non_2xx_gives_server_error_once_witness:
  "\<not> res_ok \<lparr>res_status = 500, body_text = Inr ''oops'',
             body_json = Inl \<lparr>err_name = ''SyntaxError'', err_message = ''Unexpected token''\<rparr>\<rparr> \<and>
   replies (snd (snd (run_summarize (Some 7)
        \<lparr>msg_prompt = JUndefined, msg_selectedText = JUndefined, msg_mode = JUndefined,
         msg_task = JUndefined, msg_targetLanguage = JUndefined,
         msg_pageContext = JUndefined, msg_length = JStr ''short''\<rparr>
        []
        (Resolved \<lparr>res_status = 500, body_text = Inr ''oops'',
             body_json = Inl \<lparr>err_name = ''SyntaxError'', err_message = ''Unexpected token''\<rparr>\<rparr>)
        []
        (initial_world delivering)))) =
     [\<lparr>r_ok = False, r_error = Some ''Server error 500: oops'', r_message = None,
       r_text = None, r_data = None\<rparr>] \<and>
   count_events is_fetch (snd (snd (run_summarize (Some 7)
        \<lparr>msg_prompt = JUndefined, msg_selectedText = JUndefined, msg_mode = JUndefined,
         msg_task = JUndefined, msg_targetLanguage = JUndefined,
         msg_pageContext = JUndefined, msg_length = JStr ''short''\<rparr>
        []
        (Resolved \<lparr>res_status = 500, body_text = Inr ''oops'',
             body_json = Inl \<lparr>err_name = ''SyntaxError'', err_message = ''Unexpected token''\<rparr>\<rparr>)
        []
        (initial_world delivering)))) = 1"
proof -
  have h: "\<not> res_ok \<lparr>res_status = 500, body_text = Inr ''oops'',
             body_json = Inl \<lparr>err_name = ''SyntaxError'', err_message = ''Unexpected token''\<rparr>\<rparr>"
    by (simp add: res_ok_def)
  show ?thesis
    using h non_2xx_gives_server_error_once [OF h, where tabId = "Some 7"
        and msg = "\<lparr>msg_prompt = JUndefined, msg_selectedText = JUndefined, msg_mode = JUndefined,
         msg_task = JUndefined, msg_targetLanguage = JUndefined,
         msg_pageContext = JUndefined, msg_length = JStr ''short''\<rparr>"
        and ?env1.0 = "[]" and ?env2.0 = "[]" and w = "initial_world delivering"]
    by (simp add: initial_world_def replies_def count_events_def List.map_filter_def
          show_nat.simps digit_def split: prod.splits)
qed

text \<open>
  C7, as the code has it. Against a response with status 200 and the JSON body
  \<^verbatim>\<open>{ok: true, text: "hello"}\<close>: \<^verbatim>\<open>summarize_page\<close> replies
  \<^verbatim>\<open>{ok: true, text: "hello", data}\<close> and \<^verbatim>\<open>query_gemini\<close> replies
  \<^verbatim>\<open>{ok: true, data}\<close> with the text inside \<^verbatim>\<open>data\<close>; \<^verbatim>\<open>notifyTab\<close> is called
  twice, started then finished; and for a sender with a tab id exactly these two messages
  are handed to \<^verbatim>\<open>chrome.tabs.sendMessage\<close> for that tab, in that order, while for a
  sender without a tab none is.
\<close>

theorem success_reply_and_two_messages:
  assumes "res_status res = 200"
    and "body_json res = Inr (JObj [(''ok'', JBool True), (''text'', JStr ''hello'')])"
  shows "(case run_summarize tabId msg env1 (Resolved res) env2 w of (c, st, w') \<Rightarrow>
     replies w' = replies w @
       [\<lparr>r_ok = True, r_error = None, r_message = None, r_text = Some (JStr ''hello''),
         r_data = Some (JObj [(''ok'', JBool True), (''text'', JStr ''hello'')])\<rparr>] \<and>
     map (n_action \<circ> snd) (notifications w') =
       map (n_action \<circ> snd) (notifications w) @ [''generation_started'', ''generation_finished''] \<and>
     map (n_action \<circ> snd) (sent_messages w') =
       map (n_action \<circ> snd) (sent_messages w) @
       (case tabId of None \<Rightarrow> [] | Some t \<Rightarrow> [''generation_started'', ''generation_finished'']) \<and>
     map fst (sent_messages w') =
       map fst (sent_messages w) @ (case tabId of None \<Rightarrow> [] | Some t \<Rightarrow> [t, t])) \<and>
   (case run_query tabId msg env1 (Resolved res) env2 w of (c, st, w') \<Rightarrow>
     replies w' = replies w @
       [\<lparr>r_ok = True, r_error = None, r_message = None, r_text = None,
         r_data = Some (JObj [(''ok'', JBool True), (''text'', JStr ''hello'')])\<rparr>] \<and>
     map (n_action \<circ> snd) (notifications w') =
       map (n_action \<circ> snd) (notifications w) @ [''generation_started'', ''generation_finished''] \<and>
     map (n_action \<circ> snd) (sent_messages w') =
       map (n_action \<circ> snd) (sent_messages w) @
       (case tabId of None \<Rightarrow> [] | Some t \<Rightarrow> [''generation_started'', ''generation_finished'']) \<and>
     map fst (sent_messages w') =
       map fst (sent_messages w) @ (case tabId of None \<Rightarrow> [] | Some t \<Rightarrow> [t, t]))"
proof (rule conjI)
  note ok = status_200_is_ok [OF assms(1)]
  show "case run_summarize tabId msg env1 (Resolved res) env2 w of (c, st, w') \<Rightarrow>
     replies w' = replies w @
       [\<lparr>r_ok = True, r_error = None, r_message = None, r_text = Some (JStr ''hello''),
         r_data = Some (JObj [(''ok'', JBool True), (''text'', JStr ''hello'')])\<rparr>] \<and>
     map (n_action \<circ> snd) (notifications w') =
       map (n_action \<circ> snd) (notifications w) @ [''generation_started'', ''generation_finished''] \<and>
     map (n_action \<circ> snd) (sent_messages w') =
       map (n_action \<circ> snd) (sent_messages w) @
       (case tabId of None \<Rightarrow> [] | Some t \<Rightarrow> [''generation_started'', ''generation_finished'']) \<and>
     map fst (sent_messages w') =
       map fst (sent_messages w) @ (case tabId of None \<Rightarrow> [] | Some t \<Rightarrow> [t, t])"
    using run_summarize_success [OF ok assms(2), where tabId = tabId and msg = msg
        and ?env1.0 = env1 and ?env2.0 = env2 and w = w]
    by (cases tabId) (simp_all split: prod.splits)
  show "case run_query tabId msg env1 (Resolved res) env2 w of (c, st, w') \<Rightarrow>
     replies w' = replies w @
       [\<lparr>r_ok = True, r_error = None, r_message = None, r_text = None,
         r_data = Some (JObj [(''ok'', JBool True), (''text'', JStr ''hello'')])\<rparr>] \<and>
     map (n_action \<circ> snd) (notifications w') =
       map (n_action \<circ> snd) (notifications w) @ [''generation_started'', ''generation_finished''] \<and>
     map (n_action \<circ> snd) (sent_messages w') =
       map (n_action \<circ> snd) (sent_messages w) @
       (case tabId of None \<Rightarrow> [] | Some t \<Rightarrow> [''generation_started'', ''generation_finished'']) \<and>
     map fst (sent_messages w') =
       map fst (sent_messages w) @ (case tabId of None \<Rightarrow> [] | Some t \<Rightarrow> [t, t])"
    using run_query_success [OF ok assms(2), where tabId = tabId and msg = msg
        and ?env1.0 = env1 and ?env2.0 = env2 and w = w]
    by (cases tabId) (simp_all split: prod.splits)
qed

text \<open>The request comes from tab 7.\<close>

theorem success_reply_and_two_messages_witness:
  "res_status \<lparr>res_status = 200, body_text = Inr ''{}'',
               body_json = Inr (JObj [(''ok'', JBool True), (''text'', JStr ''hello'')])\<rparr> = 200 \<and>
   body_json \<lparr>res_status = 200, body_text = Inr ''{}'',
              body_json = Inr (JObj [(''ok'', JBool True), (''text'', JStr ''hello'')])\<rparr> =
     Inr (JObj [(''ok'', JBool True), (''text'', JStr ''hello'')]) \<and>
   replies (snd (snd (run_summarize (Some 7)
        \<lparr>msg_prompt = JUndefined, msg_selectedText = JUndefined, msg_mode = JUndefined,
         msg_task = JUndefined, msg_targetLanguage = JUndefined,
         msg_pageContext = JUndefined, msg_length = JStr ''short''\<rparr>
        []
        (Resolved \<lparr>res_status = 200, body_text = Inr ''{}'',
               body_json = Inr (JObj [(''ok'', JBool True), (''text'', JStr ''hello'')])\<rparr>)
        []
        (initial_world delivering)))) =
     [\<lparr>r_ok = True, r_error = None, r_message = None, r_text = Some (JStr ''hello''),
       r_data = Some (JObj [(''ok'', JBool True), (''text'', JStr ''hello'')])\<rparr>] \<and>
   map (n_action \<circ> snd) (sent_messages (snd (snd (run_summarize (Some 7)
        \<lparr>msg_prompt = JUndefined, msg_selectedText = JUndefined, msg_mode = JUndefined,
         msg_task = JUndefined, msg_targetLanguage = JUndefined,
         msg_pageContext = JUndefined, msg_length = JStr ''short''\<rparr>
        []
        (Resolved \<lparr>res_status = 200, body_text = Inr ''{}'',
               body_json = Inr (JObj [(''ok'', JBool True), (''text'', JStr ''hello'')])\<rparr>)
        []
        (initial_world delivering))))) =
     [''generation_started'', ''generation_finished'']"
proof -
  let ?res = "\<lparr>res_status = 200, body_text = Inr ''{}'',
               body_json = Inr (JObj [(''ok'', JBool True), (''text'', JStr ''hello'')])\<rparr>"
  have h1: "res_status ?res = 200"
    by simp
  have h2: "body_json ?res = Inr (JObj [(''ok'', JBool True), (''text'', JStr ''hello'')])"
    by simp
  show ?thesis
    using success_reply_and_two_messages [OF h1 h2, where tabId = "Some 7"
        and msg = "\<lparr>msg_prompt = JUndefined, msg_selectedText = JUndefined, msg_mode = JUndefined,
         msg_task = JUndefined, msg_targetLanguage = JUndefined,
         msg_pageContext = JUndefined, msg_length = JStr ''short''\<rparr>"
        and ?env1.0 = "[]" and ?env2.0 = "[]" and w = "initial_world delivering"]
    by (simp add: initial_world_def replies_def sent_messages_def List.map_filter_def
          split: prod.splits)
qed

text \<open>
  A request from a sender without a tab (the popup): no lifecycle message leaves the
  service worker, so none can be observed.
\<close>

theorem no_tab_sender_gets_no_message_counterexample:
  "sent_messages (snd (snd (run_summarize None
        \<lparr>msg_prompt = JUndefined, msg_selectedText = JUndefined, msg_mode = JUndefined,
         msg_task = JUndefined, msg_targetLanguage = JUndefined,
         msg_pageContext = JUndefined, msg_length = JStr ''short''\<rparr>
        []
        (Resolved \<lparr>res_status = 200, body_text = Inr ''{}'',
               body_json = Inr (JObj [(''ok'', JBool True), (''text'', JStr ''hello'')])\<rparr>)
        []
        (initial_world delivering)))) = []"
  by (simp add: summarize_unfold eval_defs)

text \<open>
  C9. Whatever \<^verbatim>\<open>chrome.tabs.sendMessage\<close> does (deliver, report
  \<^verbatim>\<open>chrome.runtime.lastError\<close>, throw), \<^verbatim>\<open>notifyTab\<close> returns normally; for the
  undefined tab id it sends nothing. An invocation of either handler ends (\<open>Done\<close>)
  with the same replies whatever the browser does with the notifications.
\<close>

theorem notification_failure_never_reaches_caller:
  "returned (notifyTab tabId m w) \<and>
   sent_messages (world_of (notifyTab None m w)) = sent_messages w \<and>
   (case run_summarize tabId msg env1 fr env2 (w\<lparr>deliver := d\<rparr>) of (c, st, w') \<Rightarrow>
      st = Done \<and>
      replies w' = replies (snd (snd (run_summarize tabId msg env1 fr env2 w)))) \<and>
   (case run_query tabId msg env1 fr env2 (w\<lparr>deliver := d\<rparr>) of (c, st, w') \<Rightarrow>
      st = Done \<and>
      replies w' = replies (snd (snd (run_query tabId msg env1 fr env2 w))))"
proof -
  have r: "returned (notifyTab tabId m w)"
    by (simp add: notifyTab_returns)
  have n: "sent_messages (world_of (notifyTab None m w)) = sent_messages w"
    by (simp add: notifyTab_returns sent_messages_def map_filter_append List.map_filter_simps)
  have s: "case run_summarize tabId msg env1 fr env2 (w\<lparr>deliver := d\<rparr>) of (c, st, w') \<Rightarrow>
      st = Done \<and>
      replies w' = replies (snd (snd (run_summarize tabId msg env1 fr env2 w)))"
    using run_summarize_replies [where tabId = tabId and msg = msg and ?env1.0 = env1
        and fr = fr and ?env2.0 = env2 and w = w]
      run_summarize_replies [where tabId = tabId and msg = msg and ?env1.0 = env1
        and fr = fr and ?env2.0 = env2 and w = "w\<lparr>deliver := d\<rparr>"]
    by (simp split: prod.splits)
  have q: "case run_query tabId msg env1 fr env2 (w\<lparr>deliver := d\<rparr>) of (c, st, w') \<Rightarrow>
      st = Done \<and>
      replies w' = replies (snd (snd (run_query tabId msg env1 fr env2 w)))"
    using run_query_replies [where tabId = tabId and msg = msg and ?env1.0 = env1
        and fr = fr and ?env2.0 = env2 and w = w]
      run_query_replies [where tabId = tabId and msg = msg and ?env1.0 = env1
        and fr = fr and ?env2.0 = env2 and w = "w\<lparr>deliver := d\<rparr>"]
    by (simp split: prod.splits)
  show ?thesis
    using r n s q by simp
qed

text \<open>A browser that throws on every send: the caller still gets the answer.\<close>

theorem notification_failure_never_reaches_caller_witness:
  "returned (notifyTab (Some 7)
      \<lparr>n_action = ''generation_started'', n_kind = ''query'', n_ok = None, n_error = None,
       n_text = None, n_data = None\<rparr>
      (initial_world (\<lambda>n t m. SendThrows \<lparr>err_name = ''Error'', err_message = ''No tab''\<rparr>))) \<and>
   replies (snd (snd (run_query (Some 7)
        \<lparr>msg_prompt = JStr ''hi'', msg_selectedText = JStr '''', msg_mode = JUndefined,
         msg_task = JUndefined, msg_targetLanguage = JUndefined,
         msg_pageContext = JUndefined, msg_length = JUndefined\<rparr>
        []
        (Resolved \<lparr>res_status = 200, body_text = Inr ''{}'',
               body_json = Inr (JObj [(''ok'', JBool True), (''text'', JStr ''hello'')])\<rparr>)
        []
        ((initial_world delivering)
           \<lparr>deliver := \<lambda>n t m. SendThrows \<lparr>err_name = ''Error'', err_message = ''No tab''\<rparr>\<rparr>)))) =
     [\<lparr>r_ok = True, r_error = None, r_message = None, r_text = None,
       r_data = Some (JObj [(''ok'', JBool True), (''text'', JStr ''hello'')])\<rparr>]"
proof -
  let ?msg = "\<lparr>msg_prompt = JStr ''hi'', msg_selectedText = JStr '''', msg_mode = JUndefined,
         msg_task = JUndefined, msg_targetLanguage = JUndefined,
         msg_pageContext = JUndefined, msg_length = JUndefined\<rparr>"
  let ?fr = "Resolved \<lparr>res_status = 200, body_text = Inr ''{}'',
               body_json = Inr (JObj [(''ok'', JBool True), (''text'', JStr ''hello'')])\<rparr>"
  let ?d = "\<lambda>(n::nat) (t::int) (m::notification).
              SendThrows \<lparr>err_name = ''Error'', err_message = ''No tab''\<rparr>"
  let ?w = "initial_world delivering"
  have a: "returned (notifyTab (Some 7)
      \<lparr>n_action = ''generation_started'', n_kind = ''query'', n_ok = None, n_error = None,
       n_text = None, n_data = None\<rparr> (initial_world ?d))"
    using notification_failure_never_reaches_caller by (rule conjunct1)
  have b: "case run_query (Some 7) ?msg [] ?fr [] (?w\<lparr>deliver := ?d\<rparr>) of (c, st, w') \<Rightarrow>
      st = Done \<and> replies w' = replies (snd (snd (run_query (Some 7) ?msg [] ?fr [] ?w)))"
    using notification_failure_never_reaches_caller
      [where tabId = "Some 7" and msg = ?msg and ?env1.0 = "[]" and ?env2.0 = "[]"
         and fr = ?fr and w = ?w and d = ?d,
       THEN conjunct2, THEN conjunct2, THEN conjunct2] .
  have c: "replies (snd (snd (run_query (Some 7) ?msg [] ?fr [] ?w))) =
     [\<lparr>r_ok = True, r_error = None, r_message = None, r_text = None,
       r_data = Some (JObj [(''ok'', JBool True), (''text'', JStr ''hello'')])\<rparr>]"
    by (simp add: query_unfold eval_defs)
  show ?thesis
    using a b c by (simp split: prod.splits)
qed

text \<open>
  C10. When the fetch resolves with a 2xx status and the body parses as JSON,
  \<^verbatim>\<open>query_gemini\<close> replies with \<^verbatim>\<open>ok: true\<close> whatever the body holds, and
  \<^verbatim>\<open>summarize_page\<close> replies with \<^verbatim>\<open>ok\<close> equal to the truthiness of the body's
  \<^verbatim>\<open>ok\<close> field.
\<close>

theorem query_reply_ok_true_summarize_reply_ok_truthy:
  assumes "res_ok res" and "body_json res = Inr data"
  shows "(case run_query tabId msg env1 (Resolved res) env2 w of (c, st, w') \<Rightarrow>
            map r_ok (replies w') = map r_ok (replies w) @ [True]) \<and>
         (case run_summarize tabId msg env1 (Resolved res) env2 w of (c, st, w') \<Rightarrow>
            map r_ok (replies w') = map r_ok (replies w) @ [truthy (opt_prop data ''ok'')])"
proof (rule conjI)
  show "case run_query tabId msg env1 (Resolved res) env2 w of (c, st, w') \<Rightarrow>
            map r_ok (replies w') = map r_ok (replies w) @ [True]"
    using run_query_success [OF assms, where tabId = tabId and msg = msg
        and ?env1.0 = env1 and ?env2.0 = env2 and w = w]
    by (simp split: prod.splits)
  show "case run_summarize tabId msg env1 (Resolved res) env2 w of (c, st, w') \<Rightarrow>
            map r_ok (replies w') = map r_ok (replies w) @ [truthy (opt_prop data ''ok'')]"
    using run_summarize_success [OF assms, where tabId = tabId and msg = msg
        and ?env1.0 = env1 and ?env2.0 = env2 and w = w]
    by (simp split: prod.splits)
qed

text \<open>A 200 response whose body says \<^verbatim>\<open>ok: false\<close>.\<close>

theorem query_reply_ok_true_summarize_reply_ok_truthy_witness:
  "res_ok \<lparr>res_status = 200, body_text = Inr ''{}'',
           body_json = Inr (JObj [(''ok'', JBool False), (''error'', JStr ''quota'')])\<rparr> \<and>
   map r_ok (replies (snd (snd (run_query (Some 7)
        \<lparr>msg_prompt = JStr ''hi'', msg_selectedText = JStr '''', msg_mode = JUndefined,
         msg_task = JUndefined, msg_targetLanguage = JUndefined,
         msg_pageContext = JUndefined, msg_length = JUndefined\<rparr>
        []
        (Resolved \<lparr>res_status = 200, body_text = Inr ''{}'',
           body_json = Inr (JObj [(''ok'', JBool False), (''error'', JStr ''quota'')])\<rparr>)
        []
        (initial_world delivering))))) = [True] \<and>
   map r_ok (replies (snd (snd (run_summarize (Some 7)
        \<lparr>msg_prompt = JStr ''hi'', msg_selectedText = JStr '''', msg_mode = JUndefined,
         msg_task = JUndefined, msg_targetLanguage = JUndefined,
         msg_pageContext = JUndefined, msg_length = JUndefined\<rparr>
        []
        (Resolved \<lparr>res_status = 200, body_text = Inr ''{}'',
           body_json = Inr (JObj [(''ok'', JBool False), (''error'', JStr ''quota'')])\<rparr>)
        []
        (initial_world delivering))))) = [False]"
proof -
  let ?res = "\<lparr>res_status = 200, body_text = Inr ''{}'',
           body_json = Inr (JObj [(''ok'', JBool False), (''error'', JStr ''quota'')])\<rparr>"
  have h1: "res_ok ?res"
    by (simp add: res_ok_def)
  have h2: "body_json ?res = Inr (JObj [(''ok'', JBool False), (''error'', JStr ''quota'')])"
    by simp
  show ?thesis
    using h1 query_reply_ok_true_summarize_reply_ok_truthy [OF h1 h2, where tabId = "Some 7"
        and msg = "\<lparr>msg_prompt = JStr ''hi'', msg_selectedText = JStr '''', msg_mode = JUndefined,
         msg_task = JUndefined, msg_targetLanguage = JUndefined,
         msg_pageContext = JUndefined, msg_length = JUndefined\<rparr>"
        and ?env1.0 = "[]" and ?env2.0 = "[]" and w = "initial_world delivering"]
    by (simp add: initial_world_def replies_def List.map_filter_def split: prod.splits)
qed

end
